theory Spec2Isabelle
  imports Main
begin

section \<open>Data model\<close>

text \<open>
  The diagram domain of the DBML editing surface (\<^verbatim>\<open>applyDBMLChanges\<close> in both
  editor components).  Only the attributes that the code reads or writes are named:
  \<open>type_f\<close> stands for the remaining content of a field, which the code copies with the
  spread operator and never inspects, and \<open>indexes_t\<close> holds the names of a table's
  indexes, the only part of an index the code touches.  Positions and timestamps are
  integers; the code copies positions and never computes with them.  The diagram's
  database type only selects the dialect of the regenerated text and is part of the
  environment's \<open>regenerateDBML\<close> below.
  The source's attribute names \<open>id\<close>, \<open>name\<close>, \<open>schema\<close>, \<open>x\<close>, \<open>y\<close>,
  \<open>color\<close>, \<open>fields\<close> carry the suffix of their owner (\<open>_f\<close> field, \<open>_t\<close> table,
  \<open>_r\<close> relationship), since one record namespace holds all of them.
  An optional attribute (\<^verbatim>\<open>schema?: string\<close>) is an option; an optional list
  (\<^verbatim>\<open>tables?\<close>, \<open>relationships?\<close>) is a list, because every read of it in the source
  goes through \<^verbatim>\<open>?.\<close> or \<^verbatim>\<open>|| []\<close> and so treats an absent list as the empty one.
\<close>

record DBField =
  id_f :: string
  name_f :: string
  type_f :: string

record DBTable =
  id_t :: string
  name_t :: string
  schema_t :: "string option"
  x_t :: int
  y_t :: int
  color_t :: string
  fields_t :: "DBField list"
  indexes_t :: "string list"

datatype Cardinality = One | Many

record DBRelationship =
  id_r :: string
  name_r :: string
  sourceSchema :: "string option"
  targetSchema :: "string option"
  sourceTableId :: string
  targetTableId :: string
  sourceFieldId :: string
  targetFieldId :: string
  sourceCardinality :: Cardinality
  targetCardinality :: Cardinality
  createdAt :: int

record Diagram =
  tables :: "DBTable list"
  relationships :: "DBRelationship list"

section \<open>The JavaScript Map\<close>

text \<open>
  A \<^verbatim>\<open>Map\<close> keeps its keys in insertion order: \<^verbatim>\<open>set\<close> on a key already present
  replaces the value where the key stands, \<^verbatim>\<open>set\<close> on a new key appends,
  \<^verbatim>\<open>delete\<close> drops the entry, \<^verbatim>\<open>values()\<close> lists the values in key order.
\<close>

type_synonym ('k, 'v) jsmap = "('k \<times> 'v) list"

fun map_set :: "'k \<Rightarrow> 'v \<Rightarrow> ('k, 'v) jsmap \<Rightarrow> ('k, 'v) jsmap" where
  "map_set k v [] = [(k, v)]"
| "map_set k v ((k', v') # m) =
     (if k' = k then (k, v) # m else (k', v') # map_set k v m)"

definition map_get :: "('k, 'v) jsmap \<Rightarrow> 'k \<Rightarrow> 'v option" where
  "map_get m k = map_of m k"

definition map_has :: "('k, 'v) jsmap \<Rightarrow> 'k \<Rightarrow> bool" where
  "map_has m k = (map_get m k \<noteq> None)"

definition map_delete :: "'k \<Rightarrow> ('k, 'v) jsmap \<Rightarrow> ('k, 'v) jsmap" where
  "map_delete k m = filter (\<lambda>e. fst e \<noteq> k) m"

definition map_values :: "('k, 'v) jsmap \<Rightarrow> 'v list" where
  "map_values m = map snd m"

section \<open>Table reconciliation\<close>

text \<open>
  \<^verbatim>\<open>const key = `${table.schema || ''}.${table.name}`\<close>: an absent and an empty
  schema both give the empty prefix.
\<close>

definition schemaOrEmpty :: "string option \<Rightarrow> string" where
  "schemaOrEmpty s = (case s of None \<Rightarrow> [] | Some n \<Rightarrow> n)"

definition tableKey :: "DBTable \<Rightarrow> string" where
  "tableKey t = schemaOrEmpty (schema_t t) @ ''.'' @ name_t t"

text \<open>\<^verbatim>\<open>currentDiagram.tables?.forEach((table) => currentTableMap.set(key, table))\<close>\<close>

definition currentTableMap :: "DBTable list \<Rightarrow> (string, DBTable) jsmap" where
  "currentTableMap ts = foldl (\<lambda>m t. map_set (tableKey t) t m) [] ts"

text \<open>
  The callback of \<^verbatim>\<open>importedTable.fields.map\<close>: the first existing field of the same
  name gives its id; an imported field with no such field is returned as it is.
\<close>

definition preserveFieldId :: "DBTable \<Rightarrow> DBField \<Rightarrow> DBField" where
  "preserveFieldId existingTable importedField =
     (case find (\<lambda>f. name_f f = name_f importedField) (fields_t existingTable) of
        Some existingField \<Rightarrow> importedField\<lparr>id_f := id_f existingField\<rparr>
      | None \<Rightarrow> importedField)"

definition tableWithPreservedIds :: "DBTable \<Rightarrow> DBTable \<Rightarrow> DBTable" where
  "tableWithPreservedIds existingTable importedTable =
     importedTable\<lparr>id_t := id_t existingTable,
                   x_t := x_t existingTable,
                   y_t := y_t existingTable,
                   color_t := color_t existingTable,
                   fields_t := map (preserveFieldId existingTable) (fields_t importedTable)\<rparr>"

text \<open>
  The state of the loop over the imported tables: the lookup still holding the unmatched
  current tables, and the two output arrays.
\<close>

record ReconcileState =
  tableMap :: "(string, DBTable) jsmap"
  tablesToAdd :: "DBTable list"
  tablesToUpdate :: "DBTable list"

definition processImportedTable :: "ReconcileState \<Rightarrow> DBTable \<Rightarrow> ReconcileState" where
  "processImportedTable st importedTable =
     (let tableKey' = tableKey importedTable in
      case map_get (tableMap st) tableKey' of
        Some existingTable \<Rightarrow>
          st\<lparr>tablesToUpdate := tablesToUpdate st @ [tableWithPreservedIds existingTable importedTable],
             tableMap := map_delete tableKey' (tableMap st)\<rparr>
      | None \<Rightarrow> st\<lparr>tablesToAdd := tablesToAdd st @ [importedTable]\<rparr>)"

definition reconcileLoop :: "DBTable list \<Rightarrow> DBTable list \<Rightarrow> ReconcileState" where
  "reconcileLoop currentTables importedTables =
     foldl processImportedTable
       \<lparr>tableMap = currentTableMap currentTables, tablesToAdd = [], tablesToUpdate = []\<rparr>
       importedTables"

text \<open>\<^verbatim>\<open>const tablesToRemove = Array.from(currentTableMap.values())\<close>\<close>

definition tablesToRemove :: "ReconcileState \<Rightarrow> DBTable list" where
  "tablesToRemove st = map_values (tableMap st)"

section \<open>Relationship reconciliation\<close>

subsection \<open>Removal pass\<close>

text \<open>
  \<^verbatim>\<open>tablesToRemove.some((table) => table.id === rel.sourceTableId || table.id === rel.targetTableId)\<close>
\<close>

definition isConnectedToRemovedTable :: "DBTable list \<Rightarrow> DBRelationship \<Rightarrow> bool" where
  "isConnectedToRemovedTable removed rel =
     list_ex (\<lambda>table. id_t table = sourceTableId rel \<or> id_t table = targetTableId rel) removed"

text \<open>
  Both passes over the imported relationships begin by looking up the relationship's
  endpoint tables by id among the tables of the same diagram, then its endpoint fields by
  id in those tables, and give up when one of the four is missing.  The same four lookups
  on the current diagram open the auto-apply session's test of a current relationship.
\<close>

definition resolveEndpoints ::
  "DBTable list \<Rightarrow> DBRelationship \<Rightarrow> (DBTable \<times> DBField \<times> DBTable \<times> DBField) option" where
  "resolveEndpoints ts rel =
     (case (find (\<lambda>t. id_t t = sourceTableId rel) ts, find (\<lambda>t. id_t t = targetTableId rel) ts) of
        (Some sourceTable, Some targetTable) \<Rightarrow>
          (case (find (\<lambda>f. id_f f = sourceFieldId rel) (fields_t sourceTable),
                 find (\<lambda>f. id_f f = targetFieldId rel) (fields_t targetTable)) of
             (Some sourceField, Some targetField) \<Rightarrow>
               Some (sourceTable, sourceField, targetTable, targetField)
           | _ \<Rightarrow> None)
      | _ \<Rightarrow> None)"

text \<open>
  \<^verbatim>\<open>`${sourceTable.name}.${sourceField.name}:${targetTable.name}.${targetField.name}`\<close>
  and the same with the two sides exchanged.
\<close>

definition relKey :: "DBTable \<times> DBField \<times> DBTable \<times> DBField \<Rightarrow> string" where
  "relKey e = (case e of (sourceTable, sourceField, targetTable, targetField) \<Rightarrow>
     name_t sourceTable @ ''.'' @ name_f sourceField @ '':'' @
     name_t targetTable @ ''.'' @ name_f targetField)"

definition relReverseKey :: "DBTable \<times> DBField \<times> DBTable \<times> DBField \<Rightarrow> string" where
  "relReverseKey e = (case e of (sourceTable, sourceField, targetTable, targetField) \<Rightarrow>
     name_t targetTable @ ''.'' @ name_f targetField @ '':'' @
     name_t sourceTable @ ''.'' @ name_f sourceField)"

text \<open>The auto-apply session's \<^verbatim>\<open>importedRelationshipMap\<close>.\<close>

definition addImportedRelationship ::
  "DBTable list \<Rightarrow> (string, bool) jsmap \<Rightarrow> DBRelationship \<Rightarrow> (string, bool) jsmap" where
  "addImportedRelationship importedTables m rel =
     (case resolveEndpoints importedTables rel of
        Some e \<Rightarrow> map_set (relReverseKey e) True (map_set (relKey e) True m)
      | None \<Rightarrow> m)"

definition importedRelationshipMap :: "Diagram \<Rightarrow> (string, bool) jsmap" where
  "importedRelationshipMap importedDiagram =
     foldl (addImportedRelationship (tables importedDiagram)) [] (relationships importedDiagram)"

text \<open>
  The auto-apply session's test "this relationship doesn't exist in the imported DBML":
  it applies only when the relationship's endpoints are found in the current diagram.
\<close>

definition missingFromImport :: "Diagram \<Rightarrow> (string, bool) jsmap \<Rightarrow> DBRelationship \<Rightarrow> bool" where
  "missingFromImport currentDiagram importedMap rel =
     (case resolveEndpoints (tables currentDiagram) rel of
        Some e \<Rightarrow> \<not> map_has importedMap (relKey e) \<and> \<not> map_has importedMap (relReverseKey e)
      | None \<Rightarrow> False)"

text \<open>
  The test shared by both sessions: a field of the relationship no longer exists, by
  name, in an updated endpoint table.  \<^verbatim>\<open>!sourceFieldName\<close> holds for an absent name and
  for the empty one.
\<close>

definition fieldNameOf :: "DBTable list \<Rightarrow> string \<Rightarrow> string \<Rightarrow> string option" where
  "fieldNameOf ts tableId fieldId =
     (let tableFields = (case find (\<lambda>t. id_t t = tableId) ts of
                           Some t \<Rightarrow> fields_t t | None \<Rightarrow> [])
      in map_option name_f (find (\<lambda>f. id_f f = fieldId) tableFields))"

definition falsyName :: "string option \<Rightarrow> bool" where
  "falsyName n = (n = None \<or> n = Some [])"

definition fieldMissingIn :: "DBTable option \<Rightarrow> string option \<Rightarrow> bool" where
  "fieldMissingIn updatedTable fieldName =
     (case updatedTable of
        Some t \<Rightarrow> \<not> list_ex (\<lambda>field. Some (name_f field) = fieldName) (fields_t t)
      | None \<Rightarrow> False)"

definition endpointFieldGone :: "Diagram \<Rightarrow> DBTable list \<Rightarrow> DBRelationship \<Rightarrow> bool" where
  "endpointFieldGone currentDiagram updated rel =
     (let sourceTable = find (\<lambda>t. id_t t = sourceTableId rel) updated;
          targetTable = find (\<lambda>t. id_t t = targetTableId rel) updated
      in if sourceTable \<noteq> None \<or> targetTable \<noteq> None then
           (let sourceFieldName =
                  fieldNameOf (tables currentDiagram) (sourceTableId rel) (sourceFieldId rel);
                targetFieldName =
                  fieldNameOf (tables currentDiagram) (targetTableId rel) (targetFieldId rel)
            in if falsyName sourceFieldName \<or> falsyName targetFieldName then True
               else if fieldMissingIn sourceTable sourceFieldName then True
               else if fieldMissingIn targetTable targetFieldName then True
               else False)
         else False)"

text \<open>
  \<^verbatim>\<open>relationshipsToRemove\<close> of the explicit-apply session (\<^verbatim>\<open>TableDBML\<close>) and of the
  auto-apply session (\<^verbatim>\<open>EditorTableDBML\<close>); the second has the extra test in the
  middle.
\<close>

definition relationshipsToRemove_TableDBML ::
  "Diagram \<Rightarrow> DBTable list \<Rightarrow> DBTable list \<Rightarrow> DBRelationship list" where
  "relationshipsToRemove_TableDBML currentDiagram removed updated =
     filter (\<lambda>rel.
        if isConnectedToRemovedTable removed rel then True
        else endpointFieldGone currentDiagram updated rel)
       (relationships currentDiagram)"

definition relationshipsToRemove_EditorTableDBML ::
  "Diagram \<Rightarrow> Diagram \<Rightarrow> DBTable list \<Rightarrow> DBTable list \<Rightarrow> DBRelationship list" where
  "relationshipsToRemove_EditorTableDBML currentDiagram importedDiagram removed updated =
     filter (\<lambda>rel.
        if isConnectedToRemovedTable removed rel then True
        else if missingFromImport currentDiagram (importedRelationshipMap importedDiagram) rel
        then True
        else endpointFieldGone currentDiagram updated rel)
       (relationships currentDiagram)"

subsection \<open>The tables after reconciliation\<close>

text \<open>
  \<^verbatim>\<open>updatedDiagram.tables\<close>: the current tables without the removed ones, each replaced
  by the updated table of the same id when there is one, followed by the added tables.
\<close>

definition updatedDiagramTables ::
  "DBTable list \<Rightarrow> DBTable list \<Rightarrow> DBTable list \<Rightarrow> DBTable list \<Rightarrow> DBTable list" where
  "updatedDiagramTables currentTables removed updated added =
     map (\<lambda>table. case find (\<lambda>t. id_t t = id_t table) updated of
                     Some t \<Rightarrow> t | None \<Rightarrow> table)
       (filter (\<lambda>table. \<not> list_ex (\<lambda>t. id_t t = id_t table) removed) currentTables)
     @ added"

subsection \<open>Addition pass\<close>

text \<open>\<^verbatim>\<open>updatedDiagram.tables?.forEach((table) => tableNameToCurrentId.set(table.name, table.id))\<close>\<close>

definition tableNameToCurrentId :: "DBTable list \<Rightarrow> (string, string) jsmap" where
  "tableNameToCurrentId ts = foldl (\<lambda>m table. map_set (name_t table) (id_t table) m) [] ts"

text \<open>\<^verbatim>\<open>!currentSourceTableId\<close>: the name is not in the map, or the id is the empty string.\<close>

definition truthyId :: "string option \<Rightarrow> string option" where
  "truthyId i = (case i of Some s \<Rightarrow> (if s = [] then None else Some s) | None \<Rightarrow> None)"

text \<open>
  The second half of the resolution: the imported endpoint names are looked up in the
  post-reconciliation tables, the tables through the name-to-id map, the fields by name.
\<close>

definition resolveCurrent ::
  "DBTable list \<Rightarrow> DBTable \<times> DBField \<times> DBTable \<times> DBField \<Rightarrow>
   (DBTable \<times> DBField \<times> DBTable \<times> DBField) option" where
  "resolveCurrent updatedTables e =
     (case e of (importedSourceTable, importedSourceField, importedTargetTable, importedTargetField) \<Rightarrow>
      (case (truthyId (map_get (tableNameToCurrentId updatedTables) (name_t importedSourceTable)),
             truthyId (map_get (tableNameToCurrentId updatedTables) (name_t importedTargetTable))) of
         (Some currentSourceTableId, Some currentTargetTableId) \<Rightarrow>
           (case (find (\<lambda>t. id_t t = currentSourceTableId) updatedTables,
                  find (\<lambda>t. id_t t = currentTargetTableId) updatedTables) of
              (Some currentSourceTable, Some currentTargetTable) \<Rightarrow>
                (case (find (\<lambda>f. name_f f = name_f importedSourceField) (fields_t currentSourceTable),
                       find (\<lambda>f. name_f f = name_f importedTargetField) (fields_t currentTargetTable)) of
                   (Some currentSourceField, Some currentTargetField) \<Rightarrow>
                     Some (currentSourceTable, currentSourceField,
                           currentTargetTable, currentTargetField)
                 | _ \<Rightarrow> None)
            | _ \<Rightarrow> None)
       | _ \<Rightarrow> None))"

text \<open>
  \<^verbatim>\<open>currentDiagram.relationships?.find((existingRel) => ...)\<close>: a relationship of the
  diagram as it was before this apply with the same four endpoint ids, in this direction or
  the other.  The ids compared are those of the tables and fields that \<open>resolveCurrent\<close>
  found.
\<close>

definition sameEndpoints :: "DBTable \<times> DBField \<times> DBTable \<times> DBField \<Rightarrow> DBRelationship \<Rightarrow> bool" where
  "sameEndpoints c existingRel = (case c of (st, sf, tt, tf) \<Rightarrow>
     (sourceTableId existingRel = id_t st \<and> targetTableId existingRel = id_t tt \<and>
      sourceFieldId existingRel = id_f sf \<and> targetFieldId existingRel = id_f tf) \<or>
     (sourceTableId existingRel = id_t tt \<and> targetTableId existingRel = id_t st \<and>
      sourceFieldId existingRel = id_f tf \<and> targetFieldId existingRel = id_f sf))"

text \<open>
  The callback of \<^verbatim>\<open>importedDiagram.relationships.map\<close>.  \<open>newId\<close> is the result of
  \<^verbatim>\<open>generateId()\<close> and \<open>now\<close> that of \<^verbatim>\<open>Date.now()\<close>, both read only when the
  relationship is created.  \<open>None\<close> is the callback's \<^verbatim>\<open>null\<close>, which the following
  \<^verbatim>\<open>.filter((rel) => rel !== null)\<close> drops.
\<close>

definition mapRelationship ::
  "Diagram \<Rightarrow> Diagram \<Rightarrow> DBTable list \<Rightarrow> string \<Rightarrow> int \<Rightarrow> DBRelationship \<Rightarrow>
   DBRelationship option" where
  "mapRelationship currentDiagram importedDiagram updatedTables newId now rel =
     (case resolveEndpoints (tables importedDiagram) rel of
        None \<Rightarrow> None
      | Some (importedSourceTable, importedSourceField, importedTargetTable, importedTargetField) \<Rightarrow>
          (case resolveCurrent updatedTables
                  (importedSourceTable, importedSourceField, importedTargetTable, importedTargetField) of
             None \<Rightarrow> None
           | Some (currentSourceTable, currentSourceField, currentTargetTable, currentTargetField) \<Rightarrow>
               if list_ex (sameEndpoints (currentSourceTable, currentSourceField,
                                          currentTargetTable, currentTargetField))
                    (relationships currentDiagram)
               then None
               else Some \<lparr>id_r = newId,
                          name_r = name_t importedSourceTable @ ''_'' @ name_f importedSourceField
                                   @ ''_'' @ name_t importedTargetTable @ ''_''
                                   @ name_f importedTargetField,
                          sourceSchema = Some (schemaOrEmpty (schema_t currentSourceTable)),
                          targetSchema = Some (schemaOrEmpty (schema_t currentTargetTable)),
                          sourceTableId = id_t currentSourceTable,
                          targetTableId = id_t currentTargetTable,
                          sourceFieldId = id_f currentSourceField,
                          targetFieldId = id_f currentTargetField,
                          sourceCardinality = sourceCardinality rel,
                          targetCardinality = targetCardinality rel,
                          createdAt = now\<rparr>))"

text \<open>
  What the apply reads from outside: the importer (\<open>None\<close> when it throws), the
  regeneration of the DBML text from a diagram (\<open>None\<close> when it throws), whether the
  store accepts an awaited mutation call, and the supplies of ids and timestamps, of which
  the \<open>n\<close>-th relationship created in a run takes the \<open>n\<close>-th.  The store holds the
  diagram, so it also decides what the component's memo \<^verbatim>\<open>generateDBML\<close> is worth after
  a mutation: \<open>generatedDBML cs\<close> is the text generated from the diagram the store holds
  once it has taken the calls \<open>cs\<close> of a run, \<open>generatedDBML []\<close> the text at the start
  of the run.
\<close>

datatype StoreCall =
    RemoveTables "string list"
  | RemoveRelationships "string list"
  | UpdateTablesState "DBTable list"
  | AddTables "DBTable list"
  | AddRelationships "DBRelationship list"

record Env =
  importDBMLToDiagram :: "string \<Rightarrow> Diagram option"
  regenerateDBML :: "Diagram \<Rightarrow> string option"
  storeAccepts :: "StoreCall \<Rightarrow> bool"
  generateId :: "nat \<Rightarrow> string"
  dateNow :: "nat \<Rightarrow> int"
  generatedDBML :: "StoreCall list \<Rightarrow> string"

fun mapRelationships ::
  "Env \<Rightarrow> Diagram \<Rightarrow> Diagram \<Rightarrow> DBTable list \<Rightarrow> nat \<Rightarrow> DBRelationship list \<Rightarrow>
   DBRelationship list" where
  "mapRelationships env currentDiagram importedDiagram updatedTables n [] = []"
| "mapRelationships env currentDiagram importedDiagram updatedTables n (rel # rels) =
     (case mapRelationship currentDiagram importedDiagram updatedTables
             (generateId env n) (dateNow env n) rel of
        None \<Rightarrow> mapRelationships env currentDiagram importedDiagram updatedTables n rels
      | Some r \<Rightarrow> r # mapRelationships env currentDiagram importedDiagram updatedTables (Suc n) rels)"

definition relationshipsToAdd :: "Env \<Rightarrow> Diagram \<Rightarrow> Diagram \<Rightarrow> DBTable list \<Rightarrow> DBRelationship list" where
  "relationshipsToAdd env currentDiagram importedDiagram updatedTables =
     mapRelationships env currentDiagram importedDiagram updatedTables 0
       (relationships importedDiagram)"

section \<open>The apply pipeline\<close>

text \<open>
  Everything the apply computes before and between its store calls depends only on the
  diagram captured by the callback and on the imported diagram, never on what a store
  call returns; the plan collects it.
\<close>

record ApplyPlan =
  planRemoveTables :: "DBTable list"
  planRemoveRelationships :: "DBRelationship list"
  planUpdateTables :: "DBTable list"
  planAddTables :: "DBTable list"
  planUpdatedTables :: "DBTable list"
  planAddRelationships :: "DBRelationship list"

definition plan_TableDBML :: "Env \<Rightarrow> Diagram \<Rightarrow> Diagram \<Rightarrow> ApplyPlan" where
  "plan_TableDBML env currentDiagram importedDiagram =
     (let st = reconcileLoop (tables currentDiagram) (tables importedDiagram);
          removed = tablesToRemove st;
          updatedTables = updatedDiagramTables (tables currentDiagram) removed
                            (tablesToUpdate st) (tablesToAdd st)
      in \<lparr>planRemoveTables = removed,
          planRemoveRelationships =
            relationshipsToRemove_TableDBML currentDiagram removed (tablesToUpdate st),
          planUpdateTables = tablesToUpdate st,
          planAddTables = tablesToAdd st,
          planUpdatedTables = updatedTables,
          planAddRelationships =
            relationshipsToAdd env currentDiagram importedDiagram updatedTables\<rparr>)"

definition plan_EditorTableDBML :: "Env \<Rightarrow> Diagram \<Rightarrow> Diagram \<Rightarrow> ApplyPlan" where
  "plan_EditorTableDBML env currentDiagram importedDiagram =
     (let st = reconcileLoop (tables currentDiagram) (tables importedDiagram);
          removed = tablesToRemove st;
          updatedTables = updatedDiagramTables (tables currentDiagram) removed
                            (tablesToUpdate st) (tablesToAdd st)
      in \<lparr>planRemoveTables = removed,
          planRemoveRelationships =
            relationshipsToRemove_EditorTableDBML currentDiagram importedDiagram removed
              (tablesToUpdate st),
          planUpdateTables = tablesToUpdate st,
          planAddTables = tablesToAdd st,
          planUpdatedTables = updatedTables,
          planAddRelationships =
            relationshipsToAdd env currentDiagram importedDiagram updatedTables\<rparr>)"

text \<open>
  The awaited store calls.  A call is issued only while no earlier call has been
  rejected: a rejected \<^verbatim>\<open>await\<close> throws, and the rest of the \<^verbatim>\<open>try\<close> block is skipped.
  \<^verbatim>\<open>if (tablesToRemove.length > 0) { await removeTables(...) }\<close> and its four siblings
  are \<open>awaitIf\<close>.
\<close>

record StoreRun =
  calls :: "StoreCall list"
  rejected :: bool

definition awaitIf :: "Env \<Rightarrow> bool \<Rightarrow> StoreCall \<Rightarrow> StoreRun \<Rightarrow> StoreRun" where
  "awaitIf env nonEmpty c run =
     (if rejected run \<or> \<not> nonEmpty then run
      else run\<lparr>calls := calls run @ [c], rejected := \<not> storeAccepts env c\<rparr>)"

definition issueStoreCalls :: "Env \<Rightarrow> ApplyPlan \<Rightarrow> StoreRun" where
  "issueStoreCalls env p =
     (let run0 = \<lparr>calls = [], rejected = False\<rparr>;
          run1 = awaitIf env (planRemoveTables p \<noteq> [])
                   (RemoveTables (map id_t (planRemoveTables p))) run0;
          run2 = awaitIf env (planRemoveRelationships p \<noteq> [])
                   (RemoveRelationships (map id_r (planRemoveRelationships p))) run1;
          run3 = awaitIf env (planUpdateTables p \<noteq> [])
                   (UpdateTablesState (planUpdateTables p)) run2;
          run4 = awaitIf env (planAddTables p \<noteq> [])
                   (AddTables (planAddTables p)) run3;
          run5 = awaitIf env (planAddRelationships p \<noteq> [])
                   (AddRelationships (planAddRelationships p)) run4
      in run5)"

text \<open>
  The diagram from which the DBML text is regenerated after the five steps:
  the post-reconciliation tables, and the current relationships without the removed ones
  (compared by id) followed by the added ones.
\<close>

definition regeneratedDiagram :: "Diagram \<Rightarrow> ApplyPlan \<Rightarrow> Diagram" where
  "regeneratedDiagram currentDiagram p =
     currentDiagram\<lparr>tables := planUpdatedTables p,
                     relationships :=
                       filter (\<lambda>rel. \<not> list_ex (\<lambda>r. id_r r = id_r rel) (planRemoveRelationships p))
                         (relationships currentDiagram)
                       @ planAddRelationships p\<rparr>"

section \<open>Parser diagnostics\<close>

text \<open>
  The value the DBML parser throws is \<^verbatim>\<open>unknown\<close> to \<^verbatim>\<open>parseDBMLError\<close>: any
  JavaScript value.  Numbers are integers here (a diagnostic's line and column are); a
  parsed object is the list of its properties, read by the first entry of a name.
\<close>

datatype jsval =
    JUndefined
  | JNull
  | JBool bool
  | JNum int
  | JStr string
  | JArr "jsval list"
  | JObj "(string \<times> jsval) list"

record DBMLError =
  message :: jsval
  line :: jsval
  column :: jsval

text \<open>
  \<^verbatim>\<open>v.name\<close> for a property name that no built-in prototype defines (\<open>diags\<close>,
  \<open>message\<close>, \<open>location\<close>, \<open>start\<close>, \<open>line\<close>, \<open>column\<close>): \<open>None\<close> is the TypeError
  of reading a property of \<^verbatim>\<open>undefined\<close> or \<^verbatim>\<open>null\<close>.
\<close>

fun getProp :: "jsval \<Rightarrow> string \<Rightarrow> jsval option" where
  "getProp JUndefined k = None"
| "getProp JNull k = None"
| "getProp (JObj kvs) k = (case map_of kvs k of Some v \<Rightarrow> Some v | None \<Rightarrow> Some JUndefined)"
| "getProp v k = Some JUndefined"

text \<open>\<^verbatim>\<open>v?.[0]\<close>\<close>

fun optIndex0 :: "jsval \<Rightarrow> jsval" where
  "optIndex0 (JArr (v # vs)) = v"
| "optIndex0 (JStr (c # cs)) = JStr [c]"
| "optIndex0 (JObj kvs) = (case map_of kvs ''0'' of Some v \<Rightarrow> v | None \<Rightarrow> JUndefined)"
| "optIndex0 v = JUndefined"

fun truthy :: "jsval \<Rightarrow> bool" where
  "truthy JUndefined = False"
| "truthy JNull = False"
| "truthy (JBool b) = b"
| "truthy (JNum n) = (n \<noteq> 0)"
| "truthy (JStr s) = (s \<noteq> [])"
| "truthy (JArr vs) = True"
| "truthy (JObj kvs) = True"

text \<open>
  The body shared by the two branches of \<^verbatim>\<open>parseDBMLError\<close>:
  \<^verbatim>\<open>if (parsed.diags?.[0]) { return { message: diag.message, line: diag.location.start.line,
  column: diag.location.start.column } }\<close>.  A TypeError raised on the way is caught by the
  function's \<^verbatim>\<open>catch\<close>, after which it returns \<^verbatim>\<open>null\<close>, as it does when the test
  fails.
\<close>

definition firstDiag :: "jsval \<Rightarrow> DBMLError option" where
  "firstDiag parsed =
     (case getProp parsed ''diags'' of
        None \<Rightarrow> None
      | Some diags \<Rightarrow>
          (let diag = optIndex0 diags in
           if truthy diag then
             (case getProp diag ''message'' of
                None \<Rightarrow> None
              | Some m \<Rightarrow>
                  (case Option.bind (getProp diag ''location'') (\<lambda>l. getProp l ''start'') of
                     None \<Rightarrow> None
                   | Some start \<Rightarrow>
                       (case (getProp start ''line'', getProp start ''column'') of
                          (Some l, Some c) \<Rightarrow> Some \<lparr>message = m, line = l, column = c\<rparr>
                        | _ \<Rightarrow> None)))
           else None))"

text \<open>
  \<open>jsonParse\<close> is \<^verbatim>\<open>JSON.parse\<close>, \<open>None\<close> when it throws.  The second branch is taken by a
  non-null object that has a property \<open>diags\<close>; an array has none.
\<close>

definition parseDBMLError :: "(string \<Rightarrow> jsval option) \<Rightarrow> jsval \<Rightarrow> DBMLError option" where
  "parseDBMLError jsonParse error =
     (case error of
        JStr s \<Rightarrow> (case jsonParse s of None \<Rightarrow> None | Some parsed \<Rightarrow> firstDiag parsed)
      | JObj kvs \<Rightarrow> (if map_of kvs ''diags'' \<noteq> None then firstDiag (JObj kvs) else None)
      | _ \<Rightarrow> None)"

section \<open>Edit sessions\<close>

text \<open>
  The React state and refs that \<^verbatim>\<open>applyDBMLChanges\<close> reads and writes.  Both components
  hold \<open>dbmlContent\<close> and \<open>dbmlError\<close>; the explicit-apply component (\<^verbatim>\<open>TableDBML\<close>) adds
  \<open>isDirty\<close>, the auto-apply component (\<^verbatim>\<open>EditorTableDBML\<close>) its flags, its baseline
  and the text of the mounted editor's model (\<open>None\<close> while \<^verbatim>\<open>editorRef.current\<close> or its
  model is null), as the component reads and writes it through the editor's handle.  The
  editor widget is also given \<open>dbmlContent\<close> as its \<^verbatim>\<open>code\<close> at every render.  Times
  are milliseconds, as \<^verbatim>\<open>Date.now()\<close> gives them.
\<close>

record Session =
  dbmlContent :: string
  dbmlError :: "DBMLError option"

record TableDBMLSession = Session +
  isDirty :: bool

record EditorSession = Session +
  isApplying :: bool
  originalDbmlContent :: string
  changesInProgress :: bool
  lastValidContent :: string
  userHasEdited :: bool
  lastUpdateTime :: int
  editorText :: "string option"

text \<open>
  The toasts, by the call that raises them: the explicit-apply session's
  \<^verbatim>\<open>'DBML Error'\<close> for a present parse error, the \<^verbatim>\<open>'Error'\<close> / \<^verbatim>\<open>'Failed to apply
  DBML changes'\<close> of either \<^verbatim>\<open>catch\<close> block, the explicit-apply session's
  \<^verbatim>\<open>'DBML Applied'\<close> with its three counts (added, updated, removed), and the auto-apply
  session's \<^verbatim>\<open>'DBML Changes Applied'\<close>.
\<close>

datatype Notification =
    DBMLErrorToast DBMLError
  | ApplyFailedToast
  | DBMLAppliedToast nat nat nat
  | ChangesAppliedToast

datatype ApplyOutcome = EarlyReturn | Completed | Caught

record 's ApplyResult =
  outcome :: ApplyOutcome
  storeCalls :: "StoreCall list"
  toasts :: "Notification list"
  session :: 's

text \<open>The editor's listeners: a content change that is not programmatic, and a cursor move.\<close>

definition onDidChangeModelContent :: "int \<Rightarrow> EditorSession \<Rightarrow> EditorSession" where
  "onDidChangeModelContent now s = s\<lparr>lastUpdateTime := now, userHasEdited := True\<rparr>"

definition onDidChangeCursorPosition :: "int \<Rightarrow> EditorSession \<Rightarrow> EditorSession" where
  "onDidChangeCursorPosition now s = s\<lparr>lastUpdateTime := now\<rparr>"

text \<open>
  \<^verbatim>\<open>updateEditorContent\<close>, as far as the text goes: the replacement of the model's text
  and of \<open>dbmlContent\<close>.  The restoration of cursor, selection and scroll position that
  follows the replacement belongs to the editor widget and is left out.
\<close>

definition updateEditorContent :: "int \<Rightarrow> string \<Rightarrow> EditorSession \<Rightarrow> EditorSession" where
  "updateEditorContent now newContent s =
     (case editorText s of
        None \<Rightarrow> s
      | Some currentContent \<Rightarrow>
          if userHasEdited s \<and> now - lastUpdateTime s < 500 then s
          else if currentContent = newContent then s
          else s\<lparr>editorText := Some newContent, dbmlContent := newContent\<rparr>)"

text \<open>
  The end of a successful auto-apply run, from \<^verbatim>\<open>if (wasUserEditing)\<close> on: \<open>s\<close> is the
  session as it is when the run gets there, \<open>now\<close> the time then.
\<close>

definition recordBaseline :: "bool \<Rightarrow> int \<Rightarrow> string \<Rightarrow> EditorSession \<Rightarrow> EditorSession" where
  "recordBaseline wasUserEditing now updatedDBML s =
     (if wasUserEditing then
        s\<lparr>originalDbmlContent := updatedDBML, lastValidContent := updatedDBML\<rparr>
      else
        (updateEditorContent now updatedDBML s)
          \<lparr>originalDbmlContent := updatedDBML, lastValidContent := updatedDBML\<rparr>)"

text \<open>
  The auto-apply component's effect on its memo \<^verbatim>\<open>generateDBML\<close>
  (\<^verbatim>\<open>useEffect(() => { ... }, [generateDBML])\<close>), which runs when the component renders
  with a new value of the generated text: it writes the text into \<open>dbmlContent\<close>, which
  the component hands to the editor widget as its \<^verbatim>\<open>code\<close>, into \<open>originalDbmlContent\<close>
  and into \<open>lastValidContent\<close>.  It reads neither \<open>userHasEdited\<close> nor
  \<open>lastUpdateTime\<close>.
\<close>

definition onGenerateDBML :: "string \<Rightarrow> EditorSession \<Rightarrow> EditorSession" where
  "onGenerateDBML newContent s =
     s\<lparr>dbmlContent := newContent, originalDbmlContent := newContent,
       lastValidContent := newContent\<rparr>"

section \<open>applyDBMLChanges\<close>

text \<open>The explicit-apply session: the handler of the "Apply Changes" button.\<close>

definition applyDBMLChanges_TableDBML ::
  "Env \<Rightarrow> Diagram \<Rightarrow> TableDBMLSession \<Rightarrow> TableDBMLSession ApplyResult" where
  "applyDBMLChanges_TableDBML env currentDiagram s =
     (case dbmlError s of
        Some e \<Rightarrow>
          \<lparr>outcome = EarlyReturn, storeCalls = [], toasts = [DBMLErrorToast e], session = s\<rparr>
      | None \<Rightarrow>
          (case importDBMLToDiagram env (dbmlContent s) of
             None \<Rightarrow>
               \<lparr>outcome = Caught, storeCalls = [], toasts = [ApplyFailedToast], session = s\<rparr>
           | Some importedDiagram \<Rightarrow>
               (let p = plan_TableDBML env currentDiagram importedDiagram;
                    run = issueStoreCalls env p
                in if rejected run then
                     \<lparr>outcome = Caught, storeCalls = calls run, toasts = [ApplyFailedToast],
                      session = s\<rparr>
                   else
                     (case regenerateDBML env (regeneratedDiagram currentDiagram p) of
                        None \<Rightarrow>
                          \<lparr>outcome = Caught, storeCalls = calls run, toasts = [ApplyFailedToast],
                           session = s\<lparr>isDirty := False\<rparr>\<rparr>
                      | Some updatedDBML \<Rightarrow>
                          \<lparr>outcome = Completed, storeCalls = calls run,
                           toasts = [DBMLAppliedToast (length (planAddTables p))
                                       (length (planUpdateTables p))
                                       (length (planRemoveTables p))],
                           session = s\<lparr>isDirty := False, dbmlContent := updatedDBML\<rparr>\<rparr>))))"

text \<open>
  The auto-apply session.  \<open>nowStart\<close> is the clock when the run starts and \<open>nowEnd\<close> when
  it reaches the editor update.  The \<^verbatim>\<open>finally\<close> block clears the two in-progress flags
  on every path that entered the \<^verbatim>\<open>try\<close>.

  The run is not the only writer of the session.  Every store call that the store accepts
  changes the diagram, the component renders again while the run awaits, and when the
  generated text has changed with the diagram the effect on \<^verbatim>\<open>generateDBML\<close> runs.
  \<open>acceptedCalls\<close> are the calls of a run that changed the store (a rejected call is the
  last one issued), and \<open>rerender\<close> takes the session through the renders that follow
  them, \<open>taken\<close> being the calls the store has taken before.
\<close>

definition acceptedCalls :: "StoreRun \<Rightarrow> StoreCall list" where
  "acceptedCalls run = (if rejected run then butlast (calls run) else calls run)"

fun rerender :: "Env \<Rightarrow> StoreCall list \<Rightarrow> StoreCall list \<Rightarrow> EditorSession \<Rightarrow> EditorSession" where
  "rerender env taken [] s = s"
| "rerender env taken (c # cs) s =
     rerender env (taken @ [c]) cs
       (if generatedDBML env (taken @ [c]) = generatedDBML env taken then s
        else onGenerateDBML (generatedDBML env (taken @ [c])) s)"

definition changesCount :: "ApplyPlan \<Rightarrow> nat" where
  "changesCount p =
     length (planAddTables p) + length (planRemoveTables p) + length (planUpdateTables p)
     + length (planAddRelationships p) + length (planRemoveRelationships p)"

definition finallyBlock :: "EditorSession \<Rightarrow> EditorSession" where
  "finallyBlock s = s\<lparr>isApplying := False, changesInProgress := False\<rparr>"

definition applyDBMLChanges_EditorTableDBML ::
  "Env \<Rightarrow> Diagram \<Rightarrow> int \<Rightarrow> int \<Rightarrow> string \<Rightarrow> EditorSession \<Rightarrow> EditorSession ApplyResult" where
  "applyDBMLChanges_EditorTableDBML env currentDiagram nowStart nowEnd content s =
     (if dbmlError s \<noteq> None \<or> changesInProgress s \<or> isApplying s then
        \<lparr>outcome = EarlyReturn, storeCalls = [], toasts = [], session = s\<rparr>
      else if content = originalDbmlContent s then
        \<lparr>outcome = EarlyReturn, storeCalls = [], toasts = [], session = s\<rparr>
      else
        (let wasUserEditing = (userHasEdited s \<and> nowStart - lastUpdateTime s < 2000);
             s0 = s\<lparr>isApplying := True, changesInProgress := True\<rparr>
         in case importDBMLToDiagram env content of
              None \<Rightarrow>
                \<lparr>outcome = Caught, storeCalls = [], toasts = [ApplyFailedToast],
                 session = finallyBlock s0\<rparr>
            | Some importedDiagram \<Rightarrow>
                (let p = plan_EditorTableDBML env currentDiagram importedDiagram;
                     run = issueStoreCalls env p;
                     s1 = rerender env [] (acceptedCalls run) s0
                 in if rejected run then
                      \<lparr>outcome = Caught, storeCalls = calls run, toasts = [ApplyFailedToast],
                       session = finallyBlock s1\<rparr>
                    else
                      (case regenerateDBML env (regeneratedDiagram currentDiagram p) of
                         None \<Rightarrow>
                           \<lparr>outcome = Caught, storeCalls = calls run,
                            toasts = [ApplyFailedToast], session = finallyBlock s1\<rparr>
                       | Some updatedDBML \<Rightarrow>
                           \<lparr>outcome = Completed, storeCalls = calls run,
                            toasts = (if changesCount p > 0 then [ChangesAppliedToast] else []),
                            session = finallyBlock (recordBaseline wasUserEditing nowEnd updatedDBML s1)\<rparr>))))"

section \<open>The planned store calls\<close>

text \<open>
  The five steps by number, the test for an empty operand, and the calls of a plan as the
  pipeline is meant to issue them: each step once, in order, none with an empty operand.
  \<open>follows\<close> relates a run of awaited calls to the calls planned so far: the calls
  issued are an initial segment of them, and all of them while no call has been rejected.
\<close>

fun stepOf :: "StoreCall \<Rightarrow> nat" where
  "stepOf (RemoveTables ids) = 1"
| "stepOf (RemoveRelationships ids) = 2"
| "stepOf (UpdateTablesState ts) = 3"
| "stepOf (AddTables ts) = 4"
| "stepOf (AddRelationships rs) = 5"

fun emptyOperand :: "StoreCall \<Rightarrow> bool" where
  "emptyOperand (RemoveTables ids) = (ids = [])"
| "emptyOperand (RemoveRelationships ids) = (ids = [])"
| "emptyOperand (UpdateTablesState ts) = (ts = [])"
| "emptyOperand (AddTables ts) = (ts = [])"
| "emptyOperand (AddRelationships rs) = (rs = [])"

definition plannedCalls :: "ApplyPlan \<Rightarrow> StoreCall list" where
  "plannedCalls p =
     (if planRemoveTables p \<noteq> [] then [RemoveTables (map id_t (planRemoveTables p))] else [])
     @ (if planRemoveRelationships p \<noteq> []
        then [RemoveRelationships (map id_r (planRemoveRelationships p))] else [])
     @ (if planUpdateTables p \<noteq> [] then [UpdateTablesState (planUpdateTables p)] else [])
     @ (if planAddTables p \<noteq> [] then [AddTables (planAddTables p)] else [])
     @ (if planAddRelationships p \<noteq> [] then [AddRelationships (planAddRelationships p)] else [])"

definition follows :: "StoreRun \<Rightarrow> StoreCall list \<Rightarrow> bool" where
  "follows run pre = ((\<exists>rest. pre = calls run @ rest) \<and> (\<not> rejected run \<longrightarrow> calls run = pre))"

text \<open>
  What a sequence of awaited calls comes to when the store may reject one: the calls up to
  and including the first one that is not accepted.
\<close>

fun untilRejected :: "(StoreCall \<Rightarrow> bool) \<Rightarrow> StoreCall list \<Rightarrow> StoreCall list" where
  "untilRejected accepts [] = []"
| "untilRejected accepts (c # cs) = (if accepts c then c # untilRejected accepts cs else [c])"

section \<open>Generating the DBML text and importing it again\<close>

text \<open>
  \<^verbatim>\<open>generateDBML\<close> prepares the diagram it exports: the tables are the filtered tables,
  the relationships those whose two tables are among them, and in every table, field and
  index name each whitespace character is replaced by an underscore
  (\<^verbatim>\<open>name.replace(/\s/g, '_')\<close>).  Strings are sequences of 8-bit characters here; of the
  characters that \<^verbatim>\<open>\s\<close> matches these are tab, line feed, vertical tab, form feed,
  carriage return, space and the no-break space.  \<open>indexes_t\<close> holds the names of a
  table's indexes.
\<close>

definition isWhitespace :: "char \<Rightarrow> bool" where
  "isWhitespace ch = (ch \<in> set [CHR 0x09, CHR 0x0A, CHR 0x0B, CHR 0x0C, CHR 0x0D, CHR 0x20, CHR 0xA0])"

definition replaceWhitespace :: "string \<Rightarrow> string" where
  "replaceWhitespace s = map (\<lambda>ch. if isWhitespace ch then CHR ''_'' else ch) s"

definition filteredDiagram :: "Diagram \<Rightarrow> DBTable list \<Rightarrow> Diagram" where
  "filteredDiagram currentDiagram filteredTables =
     currentDiagram\<lparr>tables := filteredTables,
       relationships :=
         filter (\<lambda>rel. find (\<lambda>t. id_t t = sourceTableId rel) filteredTables \<noteq> None \<and>
                       find (\<lambda>t. id_t t = targetTableId rel) filteredTables \<noteq> None)
           (relationships currentDiagram)\<rparr>"

definition filteredDiagramWithoutSpaces :: "Diagram \<Rightarrow> Diagram" where
  "filteredDiagramWithoutSpaces d =
     d\<lparr>tables :=
         map (\<lambda>table. table\<lparr>name_t := replaceWhitespace (name_t table),
                fields_t := map (\<lambda>field. field\<lparr>name_f := replaceWhitespace (name_f field)\<rparr>)
                              (fields_t table),
                indexes_t := map replaceWhitespace (indexes_t table)\<rparr>)
           (tables d)\<rparr>"

text \<open>
  Modelled from the spec: the exporter and the importer (\<^verbatim>\<open>exportBaseSQL\<close>,
  \<^verbatim>\<open>importer.import\<close>, \<^verbatim>\<open>importDBMLToDiagram\<close>) are not among the sources.  By the
  spec's data model an imported schema is "structurally identical to Diagram's
  tables/relationships but with freshly generated, diagram-unaware identities", and the
  layout attributes x, y and colour "exist only in the diagram domain, not in DBML".
  So the re-import of an exported diagram has the diagram's tables, fields and
  relationships in their order, with every id replaced by the id \<open>fresh\<close> generates for
  it, and with the position and colour that \<open>layout\<close> gives an imported table.
\<close>

definition reimportField :: "(string \<Rightarrow> string) \<Rightarrow> DBField \<Rightarrow> DBField" where
  "reimportField fresh f = f\<lparr>id_f := fresh (id_f f)\<rparr>"

text \<open>
  Modelled from the spec: an imported table, as the absent importer makes it; it keeps the exported
  table's name, schema, indexes and fields and has a fresh id and the importer's layout.
\<close>

definition reimportTable ::
  "(string \<Rightarrow> string) \<Rightarrow> (DBTable \<Rightarrow> int \<times> int \<times> string) \<Rightarrow> DBTable \<Rightarrow> DBTable" where
  "reimportTable fresh layout t =
     t\<lparr>id_t := fresh (id_t t),
       x_t := fst (layout t),
       y_t := fst (snd (layout t)),
       color_t := snd (snd (layout t)),
       fields_t := map (reimportField fresh) (fields_t t)\<rparr>"

text \<open>
  Modelled from the spec: an imported relationship; its endpoints are the fresh ids of the
  tables and fields that the exported relationship connects.
\<close>

definition reimportRelationship :: "(string \<Rightarrow> string) \<Rightarrow> DBRelationship \<Rightarrow> DBRelationship" where
  "reimportRelationship fresh r =
     r\<lparr>id_r := fresh (id_r r),
       sourceTableId := fresh (sourceTableId r),
       targetTableId := fresh (targetTableId r),
       sourceFieldId := fresh (sourceFieldId r),
       targetFieldId := fresh (targetFieldId r)\<rparr>"

text \<open>
  Modelled from the spec: the imported schema of an exported diagram, the composition of
  the absent exporter and importer.
\<close>

definition reimport ::
  "(string \<Rightarrow> string) \<Rightarrow> (DBTable \<Rightarrow> int \<times> int \<times> string) \<Rightarrow> Diagram \<Rightarrow> Diagram" where
  "reimport fresh layout d =
     \<lparr>tables = map (reimportTable fresh layout) (tables d),
      relationships = map (reimportRelationship fresh) (relationships d)\<rparr>"

text \<open>
  The generated text imported again with no edit: \<^verbatim>\<open>generateDBML\<close>'s preparation from the
  source, of the current diagram and of the \<^verbatim>\<open>filteredTables\<close> the component is given,
  followed by the modelled re-import.  The enclosing panel passes the tables of the
  diagram that its schema and name filters let through; with no filter set these are all
  the tables of the diagram.
\<close>

definition roundTrip ::
  "(string \<Rightarrow> string) \<Rightarrow> (DBTable \<Rightarrow> int \<times> int \<times> string) \<Rightarrow> Diagram \<Rightarrow> DBTable list \<Rightarrow>
   Diagram" where
  "roundTrip fresh layout currentDiagram filteredTables =
     reimport fresh layout
       (filteredDiagramWithoutSpaces (filteredDiagram currentDiagram filteredTables))"

text \<open>
  The diagrams on which a round trip changes no name and loses no relationship: table
  keys, table names and table ids are pairwise different, field names are within a table,
  no name contains whitespace, and every relationship's endpoints are found in the diagram,
  with non-empty field names.
\<close>

definition noWhitespace :: "string \<Rightarrow> bool" where
  "noWhitespace s = (\<forall>ch\<in>set s. \<not> isWhitespace ch)"

definition wellFormedDiagram :: "Diagram \<Rightarrow> bool" where
  "wellFormedDiagram d =
     (distinct (map tableKey (tables d)) \<and> distinct (map name_t (tables d))
      \<and> distinct (map id_t (tables d))
      \<and> (\<forall>t\<in>set (tables d). distinct (map name_f (fields_t t)) \<and> noWhitespace (name_t t)
            \<and> (\<forall>f\<in>set (fields_t t). noWhitespace (name_f f))
            \<and> (\<forall>i\<in>set (indexes_t t). noWhitespace i))
      \<and> (\<forall>r\<in>set (relationships d).
            case resolveEndpoints (tables d) r of
              Some (st, sf, tt, tf) \<Rightarrow> name_f sf \<noteq> [] \<and> name_f tf \<noteq> []
            | None \<Rightarrow> False))"

section \<open>Example diagrams\<close>

text \<open>
  The diagram of a small shop: \<open>Users(id, name)\<close> at position (10, 20) with colour
  \<open>#fff\<close> and \<open>Orders(id, user_id)\<close>; and an imported schema in which \<open>Users\<close>
  has gained the column \<open>email\<close>, \<open>Orders\<close> is gone and \<open>Products\<close> is new.
  An imported table carries the ids the importer generated.
\<close>

definition exUsers :: DBTable where
  "exUsers = \<lparr>id_t = ''t1'', name_t = ''Users'', schema_t = None, x_t = 10, y_t = 20,
     color_t = ''#fff'',
     fields_t = [\<lparr>id_f = ''f1'', name_f = ''id'', type_f = ''int''\<rparr>,
                 \<lparr>id_f = ''f2'', name_f = ''name'', type_f = ''varchar''\<rparr>],
     indexes_t = []\<rparr>"

definition exOrders :: DBTable where
  "exOrders = \<lparr>id_t = ''t2'', name_t = ''Orders'', schema_t = None, x_t = 300, y_t = 40,
     color_t = ''#0af'',
     fields_t = [\<lparr>id_f = ''f3'', name_f = ''id'', type_f = ''int''\<rparr>,
                 \<lparr>id_f = ''f4'', name_f = ''user_id'', type_f = ''int''\<rparr>],
     indexes_t = []\<rparr>"

definition exUsersImported :: DBTable where
  "exUsersImported = \<lparr>id_t = ''n1'', name_t = ''Users'', schema_t = None, x_t = 0, y_t = 0,
     color_t = ''#000'',
     fields_t = [\<lparr>id_f = ''n2'', name_f = ''id'', type_f = ''int''\<rparr>,
                 \<lparr>id_f = ''n3'', name_f = ''name'', type_f = ''varchar''\<rparr>,
                 \<lparr>id_f = ''n4'', name_f = ''email'', type_f = ''varchar''\<rparr>],
     indexes_t = []\<rparr>"

definition exProductsImported :: DBTable where
  "exProductsImported = \<lparr>id_t = ''n5'', name_t = ''Products'', schema_t = None, x_t = 0, y_t = 0,
     color_t = ''#000'',
     fields_t = [\<lparr>id_f = ''n6'', name_f = ''id'', type_f = ''int''\<rparr>,
                 \<lparr>id_f = ''n7'', name_f = ''user_id'', type_f = ''int''\<rparr>],
     indexes_t = []\<rparr>"

definition exOrdersImported :: DBTable where
  "exOrdersImported = \<lparr>id_t = ''n8'', name_t = ''Orders'', schema_t = None, x_t = 0, y_t = 0,
     color_t = ''#000'',
     fields_t = [\<lparr>id_f = ''n9'', name_f = ''id'', type_f = ''int''\<rparr>,
                 \<lparr>id_f = ''n10'', name_f = ''user_id'', type_f = ''int''\<rparr>],
     indexes_t = []\<rparr>"

text \<open>
  The relationship \<open>Orders.user_id > Users.id\<close> of the diagram; in the imported schema
  \<open>Products.user_id > Users.id\<close>, and \<open>Users.id < Orders.user_id\<close>, which is the
  diagram's relationship written from the other side.
\<close>

definition exRelOrdersUsers :: DBRelationship where
  "exRelOrdersUsers = \<lparr>id_r = ''r1'', name_r = ''Orders_user_id_Users_id'',
     sourceSchema = None, targetSchema = None,
     sourceTableId = ''t2'', targetTableId = ''t1'',
     sourceFieldId = ''f4'', targetFieldId = ''f1'',
     sourceCardinality = Many, targetCardinality = One, createdAt = 0\<rparr>"

definition exRelProductsUsersImported :: DBRelationship where
  "exRelProductsUsersImported = \<lparr>id_r = ''nr1'', name_r = ''fk1'',
     sourceSchema = None, targetSchema = None,
     sourceTableId = ''n5'', targetTableId = ''n1'',
     sourceFieldId = ''n7'', targetFieldId = ''n2'',
     sourceCardinality = Many, targetCardinality = One, createdAt = 5\<rparr>"

definition exRelUsersOrdersImported :: DBRelationship where
  "exRelUsersOrdersImported = \<lparr>id_r = ''nr2'', name_r = ''fk2'',
     sourceSchema = None, targetSchema = None,
     sourceTableId = ''n1'', targetTableId = ''n8'',
     sourceFieldId = ''n2'', targetFieldId = ''n10'',
     sourceCardinality = One, targetCardinality = Many, createdAt = 5\<rparr>"

text \<open>A relationship of the imported schema whose target table id names no imported table.\<close>

definition exRelDangling :: DBRelationship where
  "exRelDangling = \<lparr>id_r = ''nr3'', name_r = ''fk3'',
     sourceSchema = None, targetSchema = None,
     sourceTableId = ''n1'', targetTableId = ''gone'',
     sourceFieldId = ''n2'', targetFieldId = ''n10'',
     sourceCardinality = One, targetCardinality = Many, createdAt = 5\<rparr>"

definition exDiagram :: Diagram where
  "exDiagram = \<lparr>tables = [exUsers, exOrders], relationships = [exRelOrdersUsers]\<rparr>"

definition exImported :: Diagram where
  "exImported = \<lparr>tables = [exUsersImported, exProductsImported],
     relationships = [exRelProductsUsersImported]\<rparr>"

definition exImportedSame :: Diagram where
  "exImportedSame = \<lparr>tables = [exUsersImported, exOrdersImported],
     relationships = [exRelUsersOrdersImported]\<rparr>"

text \<open>The same imported schema with the dangling relationship in front.\<close>

definition exImportedDangling :: Diagram where
  "exImportedDangling = \<lparr>tables = [exUsersImported, exOrdersImported],
     relationships = [exRelDangling, exRelUsersOrdersImported]\<rparr>"

text \<open>
  The imported schema in which the relationship of the diagram is replaced by
  \<open>Orders.id > Users.id\<close>, both tables being as they were.
\<close>

definition exRelOrdersIdUsersImported :: DBRelationship where
  "exRelOrdersIdUsersImported = \<lparr>id_r = ''nr5'', name_r = ''fk5'',
     sourceSchema = None, targetSchema = None,
     sourceTableId = ''n8'', targetTableId = ''n1'',
     sourceFieldId = ''n9'', targetFieldId = ''n2'',
     sourceCardinality = Many, targetCardinality = One, createdAt = 5\<rparr>"

definition exImportedOtherRel :: Diagram where
  "exImportedOtherRel = \<lparr>tables = [exUsersImported, exOrdersImported],
     relationships = [exRelOrdersIdUsersImported]\<rparr>"

text \<open>The outcome of applying the imported schema above to the shop's diagram.\<close>

definition exUsersUpdated :: DBTable where
  "exUsersUpdated = exUsers\<lparr>fields_t := [\<lparr>id_f = ''f1'', name_f = ''id'', type_f = ''int''\<rparr>,
                 \<lparr>id_f = ''f2'', name_f = ''name'', type_f = ''varchar''\<rparr>,
                 \<lparr>id_f = ''n4'', name_f = ''email'', type_f = ''varchar''\<rparr>]\<rparr>"

definition exRelCreated :: DBRelationship where
  "exRelCreated = \<lparr>id_r = ''r'', name_r = ''Products_user_id_Users_id'',
     sourceSchema = Some [], targetSchema = Some [],
     sourceTableId = ''n5'', targetTableId = ''t1'',
     sourceFieldId = ''n7'', targetFieldId = ''f1'',
     sourceCardinality = Many, targetCardinality = One, createdAt = 1000\<rparr>"

text \<open>
  An environment whose importer returns the given diagram for every text, whose store
  accepts every call and whose regeneration succeeds, always with the same text.
\<close>

definition exEnv :: "Diagram \<Rightarrow> Env" where
  "exEnv imp = \<lparr>importDBMLToDiagram = (\<lambda>content. Some imp),
     regenerateDBML = (\<lambda>d. Some ''Table Users {}''),
     storeAccepts = (\<lambda>c. True),
     generateId = (\<lambda>n. replicate (Suc n) (CHR ''r'')),
     dateNow = (\<lambda>n. 1000),
     generatedDBML = (\<lambda>cs. ''Table Users {}'')\<rparr>"

text \<open>An importer for the examples: it marks every id as new and lays tables out at the origin.\<close>

definition exFresh :: "string \<Rightarrow> string" where
  "exFresh i = CHR ''n'' # i"

definition exLayout :: "DBTable \<Rightarrow> int \<times> int \<times> string" where
  "exLayout t = (0, 0, ''#000'')"

text \<open>Two tables named \<open>Items\<close>, in the schemas \<open>sales\<close> and \<open>stock\<close>.\<close>

definition exSalesItems :: DBTable where
  "exSalesItems = \<lparr>id_t = ''s1'', name_t = ''Items'', schema_t = Some ''sales'', x_t = 0, y_t = 0,
     color_t = ''#000'',
     fields_t = [\<lparr>id_f = ''g1'', name_f = ''id'', type_f = ''int''\<rparr>],
     indexes_t = []\<rparr>"

definition exStockItems :: DBTable where
  "exStockItems = \<lparr>id_t = ''s2'', name_t = ''Items'', schema_t = Some ''stock'', x_t = 0, y_t = 0,
     color_t = ''#000'',
     fields_t = [\<lparr>id_f = ''g2'', name_f = ''id'', type_f = ''int''\<rparr>],
     indexes_t = []\<rparr>"

definition exRelItemsSelf :: DBRelationship where
  "exRelItemsSelf = \<lparr>id_r = ''nr4'', name_r = ''fk4'',
     sourceSchema = Some ''sales'', targetSchema = Some ''sales'',
     sourceTableId = ''s1'', targetTableId = ''s1'',
     sourceFieldId = ''g1'', targetFieldId = ''g1'',
     sourceCardinality = One, targetCardinality = One, createdAt = 5\<rparr>"

definition exItemsDiagram :: Diagram where
  "exItemsDiagram = \<lparr>tables = [exSalesItems, exStockItems], relationships = [exRelItemsSelf]\<rparr>"

text \<open>A diagram whose only table has a space in its name.\<close>

definition exAppUsers :: DBTable where
  "exAppUsers = \<lparr>id_t = ''a1'', name_t = ''App Users'', schema_t = None, x_t = 0, y_t = 0,
     color_t = ''#000'',
     fields_t = [\<lparr>id_f = ''a2'', name_f = ''id'', type_f = ''int''\<rparr>],
     indexes_t = []\<rparr>"

definition exAppDiagram :: Diagram where
  "exAppDiagram = \<lparr>tables = [exAppUsers], relationships = []\<rparr>"

text \<open>
  The shop's \<open>Users\<close> with a table \<open>Tags\<close> whose only column has the empty name, and
  the relationship from that column to \<open>Users.id\<close>.
\<close>

definition exTags :: DBTable where
  "exTags = \<lparr>id_t = ''t3'', name_t = ''Tags'', schema_t = None, x_t = 0, y_t = 0,
     color_t = ''#000'',
     fields_t = [\<lparr>id_f = ''f5'', name_f = [], type_f = ''int''\<rparr>],
     indexes_t = []\<rparr>"

definition exRelTagsUsers :: DBRelationship where
  "exRelTagsUsers = \<lparr>id_r = ''r2'', name_r = ''Tags_Users_id'',
     sourceSchema = None, targetSchema = None,
     sourceTableId = ''t3'', targetTableId = ''t1'',
     sourceFieldId = ''f5'', targetFieldId = ''f1'',
     sourceCardinality = Many, targetCardinality = One, createdAt = 0\<rparr>"

definition exTagsDiagram :: Diagram where
  "exTagsDiagram = \<lparr>tables = [exUsers, exTags], relationships = [exRelTagsUsers]\<rparr>"

text \<open>Sessions: one with a parse error on display, one in which the user has just typed.\<close>

definition exError :: DBMLError where
  "exError = \<lparr>message = JStr ''Expect a closing brace'', line = JNum 3, column = JNum 7\<rparr>"

definition exTableDBMLSession :: TableDBMLSession where
  "exTableDBMLSession = \<lparr>dbmlContent = ''Table Users {'', dbmlError = None, isDirty = True\<rparr>"

definition exEditorSession :: EditorSession where
  "exEditorSession = \<lparr>dbmlContent = ''Table Users {'', dbmlError = None,
     isApplying = False, originalDbmlContent = ''Table Users {}'', changesInProgress = False,
     lastValidContent = ''Table Users {}'', userHasEdited = True, lastUpdateTime = 1000,
     editorText = Some ''Table Users {''\<rparr>"

text \<open>
  The shop while its user edits the text.  The generated text names the tables and the
  references that the store holds: at the start of a run \<open>Users\<close>, \<open>Orders\<close> and the
  reference between them; \<open>Orders\<close> is gone once the store has taken a remove-tables
  call, the reference once it has taken a remove-relationships call, \<open>Products\<close> is
  there after an add-tables call and its reference after an add-relationships call.  The
  regeneration at the end of a run gives the text of the diagram that the five calls
  leave.  The user has typed a draft of that schema in a spelling of their own, the last
  key at time 1000.
\<close>

definition exGenerated :: "StoreCall list \<Rightarrow> string" where
  "exGenerated cs =
     ''Table Users {}''
     @ (if list_ex (\<lambda>c. stepOf c = 1) cs then [] else '' Table Orders {}'')
     @ (if list_ex (\<lambda>c. stepOf c = 4) cs then '' Table Products {}'' else [])
     @ (if list_ex (\<lambda>c. stepOf c = 2) cs then [] else '' Ref: Orders > Users'')
     @ (if list_ex (\<lambda>c. stepOf c = 5) cs then '' Ref: Products > Users'' else [])"

definition exShopEnv :: Env where
  "exShopEnv = (exEnv exImported)
     \<lparr>regenerateDBML := (\<lambda>d. Some ''Table Users {} Table Products {} Ref: Products > Users''),
      generatedDBML := exGenerated\<rparr>"

definition exTyped :: string where
  "exTyped = ''table Users{} table Products{} ref: Products>Users''"

definition exTypingSession :: EditorSession where
  "exTypingSession = \<lparr>dbmlContent = exTyped, dbmlError = None,
     isApplying = False,
     originalDbmlContent = ''Table Users {} Table Orders {} Ref: Orders > Users'',
     changesInProgress = False, lastValidContent = exTyped, userHasEdited = True,
     lastUpdateTime = 1000, editorText = Some exTyped\<rparr>"

text \<open>
  A parser failure as the DBML parser throws it, and a \<^verbatim>\<open>JSON.parse\<close> that knows the text
  \<open>{diags}\<close> as its serialisation and throws on every other text.
\<close>

definition exStart :: "(string \<times> jsval) list" where
  "exStart = [(''line'', JNum 3), (''column'', JNum 7)]"

definition exLocation :: "(string \<times> jsval) list" where
  "exLocation = [(''start'', JObj exStart),
                 (''end'', JObj [(''line'', JNum 3), (''column'', JNum 8)])]"

definition exDiagnostic :: "(string \<times> jsval) list" where
  "exDiagnostic = [(''message'', JStr ''Expect a closing brace''), (''location'', JObj exLocation)]"

definition exPayload :: "(string \<times> jsval) list" where
  "exPayload = [(''diags'', JArr [JObj exDiagnostic])]"

definition exJsonParse :: "string \<Rightarrow> jsval option" where
  "exJsonParse t = (if t = ''{diags}'' then Some (JObj exPayload) else None)"

section \<open>Lists and maps\<close>

lemma find_append: "find P (xs @ ys) = (case find P xs of Some x \<Rightarrow> Some x | None \<Rightarrow> find P ys)"
  by (induction xs) auto

lemma find_SomeD: "find P xs = Some x \<Longrightarrow> P x \<and> x \<in> set xs"
  by (induction xs) (auto split: if_splits)

lemma find_keyed_None: "(find (\<lambda>t. f t = k) ts = None) = (k \<notin> f ` set ts)"
  by (induction ts) auto

lemma find_keyed_distinct:
  "distinct (map f ts) \<Longrightarrow> t \<in> set ts \<Longrightarrow> find (\<lambda>c. f c = f t) ts = Some t"
  by (induction ts) (auto simp: image_iff)

lemma map_of_keyed: "map_of (map (\<lambda>t. (f t, t)) ts) k = find (\<lambda>t. f t = k) ts"
  by (induction ts) auto

lemma map_set_fresh: "k \<notin> fst ` set m \<Longrightarrow> map_set k v m = m @ [(k, v)]"
  by (induction m) auto

lemma map_of_map_set: "map_of (map_set k v m) = (map_of m)(k \<mapsto> v)"
  by (induction m) (auto simp: fun_eq_iff)

lemma map_of_map_delete: "k' \<noteq> k \<Longrightarrow> map_of (map_delete k m) k' = map_of m k'"
  by (induction m) (auto simp: map_delete_def)

lemma filter_map_delete:
  "filter P (map_delete k m) = filter (\<lambda>e. fst e \<noteq> k \<and> P e) m"
  by (induction m) (auto simp: map_delete_def)

lemma map_of_foldl_map_set:
  "map_of (foldl (\<lambda>m t. map_set (kf t) (vf t) m) m0 ts) n =
     (case find (\<lambda>t. kf t = n) (rev ts) of Some t \<Rightarrow> Some (vf t) | None \<Rightarrow> map_of m0 n)"
proof (induction ts arbitrary: m0)
  case Nil
  then show ?case by simp
next
  case (Cons t ts)
  show ?case
    by (simp add: Cons.IH find_append map_of_map_set split: option.splits)
qed

lemma append_sep_eq:
  "c \<notin> set a \<Longrightarrow> c \<notin> set a' \<Longrightarrow> (a @ c # b = a' @ c # b') = (a = a' \<and> b = b')"
proof (induction a arbitrary: a')
  case Nil
  then show ?case by (cases a') auto
next
  case (Cons x a)
  then show ?case by (cases a') auto
qed

lemma sorted_wrt_prefix: "sorted_wrt P (map f (xs @ ys)) \<Longrightarrow> sorted_wrt P (map f xs)"
  by (simp add: sorted_wrt_append)

lemmas ex_defs = exUsers_def exOrders_def exUsersImported_def exProductsImported_def
  exOrdersImported_def

lemmas rel_defs = exRelOrdersUsers_def exRelProductsUsersImported_def exRelUsersOrdersImported_def
  exRelDangling_def exRelItemsSelf_def

lemmas dia_defs = exDiagram_def exImported_def exImportedSame_def

section \<open>Properties of the table reconciliation\<close>

lemma foldl_map_set_distinct:
  "distinct (map tableKey ts) \<Longrightarrow> tableKey ` set ts \<inter> fst ` set m = {} \<Longrightarrow>
   foldl (\<lambda>m t. map_set (tableKey t) t m) m ts = m @ map (\<lambda>t. (tableKey t, t)) ts"
proof (induction ts arbitrary: m)
  case Nil
  then show ?case by simp
next
  case (Cons t ts)
  have fresh: "tableKey t \<notin> fst ` set m" using Cons.prems(2) by auto
  have d: "distinct (map tableKey ts)" using Cons.prems(1) by simp
  have disj: "tableKey ` set ts \<inter> fst ` set (m @ [(tableKey t, t)]) = {}"
    using Cons.prems by auto
  show ?case
    using Cons.IH [OF d disj] by (simp add: map_set_fresh [OF fresh])
qed

lemma currentTableMap_distinct:
  "distinct (map tableKey ts) \<Longrightarrow> currentTableMap ts = map (\<lambda>t. (tableKey t, t)) ts"
  using foldl_map_set_distinct [of ts "[]"] by (simp add: currentTableMap_def)

lemma reconcile_foldl:
  "distinct (map tableKey imp) \<Longrightarrow>
   foldl processImportedTable st imp =
     st\<lparr>tableMap := filter (\<lambda>e. fst e \<notin> tableKey ` set imp) (tableMap st),
        tablesToAdd := tablesToAdd st @ filter (\<lambda>it. map_of (tableMap st) (tableKey it) = None) imp,
        tablesToUpdate := tablesToUpdate st @
          map (\<lambda>it. tableWithPreservedIds (the (map_of (tableMap st) (tableKey it))) it)
            (filter (\<lambda>it. map_of (tableMap st) (tableKey it) \<noteq> None) imp)\<rparr>"
proof (induction imp arbitrary: st)
  case Nil
  then show ?case by simp
next
  case (Cons it imp)
  let ?st' = "processImportedTable st it"
  have d: "distinct (map tableKey imp)" and nk: "tableKey it \<notin> tableKey ` set imp"
    using Cons.prems by auto
  have later: "\<And>j. j \<in> set imp \<Longrightarrow> map_of (tableMap ?st') (tableKey j) = map_of (tableMap st) (tableKey j)"
  proof -
    fix j assume "j \<in> set imp"
    then have "tableKey j \<noteq> tableKey it" using nk by (metis imageI)
    then show "map_of (tableMap ?st') (tableKey j) = map_of (tableMap st) (tableKey j)"
      by (auto simp: processImportedTable_def map_get_def Let_def map_of_map_delete split: option.splits)
  qed
  have f1: "filter (\<lambda>j. map_of (tableMap ?st') (tableKey j) = None) imp
          = filter (\<lambda>j. map_of (tableMap st) (tableKey j) = None) imp"
    using later by (intro filter_cong) auto
  have f2: "filter (\<lambda>j. map_of (tableMap ?st') (tableKey j) \<noteq> None) imp
          = filter (\<lambda>j. map_of (tableMap st) (tableKey j) \<noteq> None) imp"
    using later by (intro filter_cong) auto
  have f3: "map (\<lambda>j. tableWithPreservedIds (the (map_of (tableMap ?st') (tableKey j))) j)
              (filter (\<lambda>j. map_of (tableMap st) (tableKey j) \<noteq> None) imp)
          = map (\<lambda>j. tableWithPreservedIds (the (map_of (tableMap st) (tableKey j))) j)
              (filter (\<lambda>j. map_of (tableMap st) (tableKey j) \<noteq> None) imp)"
    using later by (intro map_cong) auto
  have keep: "map_of (tableMap st) (tableKey it) = None \<Longrightarrow>
      filter (\<lambda>e. fst e \<noteq> tableKey it \<and> fst e \<notin> tableKey ` set imp) (tableMap st)
      = filter (\<lambda>e. fst e \<notin> tableKey ` set imp) (tableMap st)"
    by (intro filter_cong) (auto simp: map_of_eq_None_iff image_iff)
  show ?case
  proof (cases "map_of (tableMap st) (tableKey it)")
    case None
    then show ?thesis
      by (simp only: foldl_Cons Cons.IH [OF d] f1 f2 f3)
         (simp add: processImportedTable_def map_get_def Let_def keep)
  next
    case (Some ct)
    then show ?thesis
      by (simp only: foldl_Cons Cons.IH [OF d] f1 f2 f3)
         (simp add: processImportedTable_def map_get_def Let_def filter_map_delete)
  qed
qed

lemma reconcileLoop_distinct:
  assumes "distinct (map tableKey cur)" and "distinct (map tableKey imp)"
  shows "tablesToUpdate (reconcileLoop cur imp) =
           map (\<lambda>it. tableWithPreservedIds (the (find (\<lambda>ct. tableKey ct = tableKey it) cur)) it)
             (filter (\<lambda>it. tableKey it \<in> tableKey ` set cur) imp)"
    and "tablesToAdd (reconcileLoop cur imp) = filter (\<lambda>it. tableKey it \<notin> tableKey ` set cur) imp"
    and "tablesToRemove (reconcileLoop cur imp) = filter (\<lambda>ct. tableKey ct \<notin> tableKey ` set imp) cur"
  using assms
  by (simp_all add: reconcileLoop_def reconcile_foldl currentTableMap_distinct map_of_keyed
      find_keyed_None tablesToRemove_def map_values_def filter_map comp_def)




lemma tableKey_eq_iff:
  assumes "CHR ''.'' \<notin> set (schemaOrEmpty (schema_t t))"
      and "CHR ''.'' \<notin> set (schemaOrEmpty (schema_t u))"
  shows "(tableKey t = tableKey u) =
         (schemaOrEmpty (schema_t t) = schemaOrEmpty (schema_t u) \<and> name_t t = name_t u)"
  using append_sep_eq [OF assms] by (simp add: tableKey_def)



section \<open>Properties of the removal pass\<close>

lemma map_has_foldl_addImported:
  "map_has (foldl (addImportedRelationship ts) m rels) k =
     (map_has m k \<or> (\<exists>ir\<in>set rels. \<exists>ie. resolveEndpoints ts ir = Some ie \<and>
         (k = relKey ie \<or> k = relReverseKey ie)))"
proof (induction rels arbitrary: m)
  case Nil
  then show ?case by simp
next
  case (Cons r rels)
  have step: "map_has (addImportedRelationship ts m r) k =
     (map_has m k \<or> (\<exists>ie. resolveEndpoints ts r = Some ie \<and> (k = relKey ie \<or> k = relReverseKey ie)))"
    by (auto simp: addImportedRelationship_def map_has_def map_get_def map_of_map_set
        split: option.splits)
  show ?case by (simp add: Cons.IH step)
qed

lemma map_has_importedRelationshipMap:
  "map_has (importedRelationshipMap imp) k =
     (\<exists>ir\<in>set (relationships imp). \<exists>ie. resolveEndpoints (tables imp) ir = Some ie \<and>
         (k = relKey ie \<or> k = relReverseKey ie))"
  by (simp add: importedRelationshipMap_def map_has_foldl_addImported)
     (simp add: map_has_def map_get_def)

lemma missingFromImport_absent:
  assumes "resolveEndpoints (tables cur) rel = Some e"
      and "\<forall>ir\<in>set (relationships imp). \<forall>ie.
             resolveEndpoints (tables imp) ir = Some ie \<longrightarrow>
               relKey ie \<noteq> relKey e \<and> relReverseKey ie \<noteq> relKey e \<and>
               relKey ie \<noteq> relReverseKey e \<and> relReverseKey ie \<noteq> relReverseKey e"
  shows "missingFromImport cur (importedRelationshipMap imp) rel"
  using assms
  by (simp add: missingFromImport_def map_has_importedRelationshipMap) metis

lemma relReverseKey_swap: "relReverseKey (st, sf, tt, tf) = relKey (tt, tf, st, sf)"
  by (simp add: relKey_def relReverseKey_def)

lemma relKey_eq_iff:
  assumes "CHR ''.'' \<notin> set (name_t st)" "CHR ''.'' \<notin> set (name_t st')"
      and "CHR '':'' \<notin> set (name_f sf)" "CHR '':'' \<notin> set (name_f sf')"
      and "CHR ''.'' \<notin> set (name_t tt)" "CHR ''.'' \<notin> set (name_t tt')"
  shows "(relKey (st, sf, tt, tf) = relKey (st', sf', tt', tf')) =
         (name_t st = name_t st' \<and> name_f sf = name_f sf' \<and>
          name_t tt = name_t tt' \<and> name_f tf = name_f tf')"
  using append_sep_eq [OF assms(1,2)] append_sep_eq [OF assms(3,4)] append_sep_eq [OF assms(5,6)]
  by (simp add: relKey_def)

text \<open>
  Claim C3.  In the auto-apply session, a current relationship whose endpoint tables are
  not removed, whose endpoints are found in the current diagram, and whose name key
  (\<open>sourceTable.sourceField:targetTable.targetField\<close>) is, in neither direction, the key
  of an imported relationship in either direction, is among the relationships to remove.
  Nothing is asked of its endpoint tables and fields: they may all be unchanged in the
  imported schema, as they are in the example that follows.
\<close>

theorem relationship_absent_from_import_is_removed:
  assumes rel: "rel \<in> set (relationships currentDiagram)"
      and kept: "\<not> isConnectedToRemovedTable
                   (tablesToRemove (reconcileLoop (tables currentDiagram) (tables importedDiagram))) rel"
      and endpoints: "resolveEndpoints (tables currentDiagram) rel = Some e"
      and absent: "\<forall>ir\<in>set (relationships importedDiagram). \<forall>ie.
             resolveEndpoints (tables importedDiagram) ir = Some ie \<longrightarrow>
               relKey ie \<noteq> relKey e \<and> relReverseKey ie \<noteq> relKey e \<and>
               relKey ie \<noteq> relReverseKey e \<and> relReverseKey ie \<noteq> relReverseKey e"
  shows "rel \<in> set (planRemoveRelationships
                      (plan_EditorTableDBML env currentDiagram importedDiagram))"
  using rel missingFromImport_absent [OF endpoints absent]
  by (simp add: plan_EditorTableDBML_def Let_def relationshipsToRemove_EditorTableDBML_def)

lemma exReconcileSame:
  "reconcileLoop [exUsers, exOrders] [exUsersImported, exOrdersImported] =
     \<lparr>tableMap = [],
      tablesToAdd = [],
      tablesToUpdate = [exUsersUpdated, exOrders]\<rparr>"
  by (simp add: reconcileLoop_def currentTableMap_def processImportedTable_def map_get_def
      map_delete_def tableKey_def schemaOrEmpty_def tableWithPreservedIds_def preserveFieldId_def
      ex_defs exUsersUpdated_def Let_def)

theorem relationship_absent_from_import_is_removed_witness:
  "exRelOrdersUsers \<in> set (relationships exDiagram)
   \<and> tablesToRemove (reconcileLoop (tables exDiagram) (tables exImportedOtherRel)) = []
   \<and> resolveEndpoints (tables exDiagram) exRelOrdersUsers
       = Some (exOrders, \<lparr>id_f = ''f4'', name_f = ''user_id'', type_f = ''int''\<rparr>,
               exUsers, \<lparr>id_f = ''f1'', name_f = ''id'', type_f = ''int''\<rparr>)
   \<and> resolveEndpoints (tables exImportedOtherRel) exRelOrdersIdUsersImported
       = Some (exOrdersImported, \<lparr>id_f = ''n9'', name_f = ''id'', type_f = ''int''\<rparr>,
               exUsersImported, \<lparr>id_f = ''n2'', name_f = ''id'', type_f = ''int''\<rparr>)
   \<and> \<not> endpointFieldGone exDiagram
         (tablesToUpdate (reconcileLoop (tables exDiagram) (tables exImportedOtherRel)))
         exRelOrdersUsers
   \<and> exRelOrdersUsers \<in> set (planRemoveRelationships
         (plan_EditorTableDBML (exEnv exImportedOtherRel) exDiagram exImportedOtherRel))"
proof -
  have rel: "exRelOrdersUsers \<in> set (relationships exDiagram)"
    by (simp add: exDiagram_def)
  have rec: "reconcileLoop (tables exDiagram) (tables exImportedOtherRel) =
     \<lparr>tableMap = [], tablesToAdd = [], tablesToUpdate = [exUsersUpdated, exOrders]\<rparr>"
    by (simp add: exDiagram_def exImportedOtherRel_def exReconcileSame)
  have none: "tablesToRemove (reconcileLoop (tables exDiagram) (tables exImportedOtherRel)) = []"
    by (simp add: rec tablesToRemove_def map_values_def)
  have kept: "\<not> isConnectedToRemovedTable
      (tablesToRemove (reconcileLoop (tables exDiagram) (tables exImportedOtherRel))) exRelOrdersUsers"
    by (simp add: none isConnectedToRemovedTable_def)
  have endpoints: "resolveEndpoints (tables exDiagram) exRelOrdersUsers
       = Some (exOrders, \<lparr>id_f = ''f4'', name_f = ''user_id'', type_f = ''int''\<rparr>,
               exUsers, \<lparr>id_f = ''f1'', name_f = ''id'', type_f = ''int''\<rparr>)"
    by (simp add: resolveEndpoints_def exDiagram_def exRelOrdersUsers_def ex_defs)
  have imported: "resolveEndpoints (tables exImportedOtherRel) exRelOrdersIdUsersImported
       = Some (exOrdersImported, \<lparr>id_f = ''n9'', name_f = ''id'', type_f = ''int''\<rparr>,
               exUsersImported, \<lparr>id_f = ''n2'', name_f = ''id'', type_f = ''int''\<rparr>)"
    by (simp add: resolveEndpoints_def exImportedOtherRel_def exRelOrdersIdUsersImported_def ex_defs)
  have rels: "relationships exImportedOtherRel = [exRelOrdersIdUsersImported]"
    by (simp add: exImportedOtherRel_def)
  have absent: "\<forall>ir\<in>set (relationships exImportedOtherRel). \<forall>ie.
        resolveEndpoints (tables exImportedOtherRel) ir = Some ie \<longrightarrow>
          relKey ie \<noteq> relKey (exOrders, \<lparr>id_f = ''f4'', name_f = ''user_id'', type_f = ''int''\<rparr>,
               exUsers, \<lparr>id_f = ''f1'', name_f = ''id'', type_f = ''int''\<rparr>) \<and>
          relReverseKey ie \<noteq> relKey (exOrders, \<lparr>id_f = ''f4'', name_f = ''user_id'', type_f = ''int''\<rparr>,
               exUsers, \<lparr>id_f = ''f1'', name_f = ''id'', type_f = ''int''\<rparr>) \<and>
          relKey ie \<noteq> relReverseKey (exOrders, \<lparr>id_f = ''f4'', name_f = ''user_id'', type_f = ''int''\<rparr>,
               exUsers, \<lparr>id_f = ''f1'', name_f = ''id'', type_f = ''int''\<rparr>) \<and>
          relReverseKey ie \<noteq> relReverseKey (exOrders, \<lparr>id_f = ''f4'', name_f = ''user_id'', type_f = ''int''\<rparr>,
               exUsers, \<lparr>id_f = ''f1'', name_f = ''id'', type_f = ''int''\<rparr>)"
    unfolding rels
    by (simp add: imported) (simp add: relKey_def relReverseKey_def ex_defs)
  have still: "\<not> endpointFieldGone exDiagram
         (tablesToUpdate (reconcileLoop (tables exDiagram) (tables exImportedOtherRel)))
         exRelOrdersUsers"
    unfolding rec
    by (simp add: endpointFieldGone_def fieldNameOf_def falsyName_def fieldMissingIn_def
        exDiagram_def exRelOrdersUsers_def exUsersUpdated_def ex_defs Let_def)
  from relationship_absent_from_import_is_removed [OF rel kept endpoints absent,
      of "exEnv exImportedOtherRel"] rel none endpoints imported still
  show ?thesis by simp
qed

section \<open>Properties of the addition pass\<close>

lemma tableNameToCurrentId_last:
  "map_get (tableNameToCurrentId ts) n = map_option id_t (find (\<lambda>t. name_t t = n) (rev ts))"
  by (simp add: tableNameToCurrentId_def map_of_foldl_map_set map_get_def split: option.splits)

lemma find_rev_later:
  assumes "\<forall>t\<in>set zs. name_t t \<noteq> name_t later"
  shows "find (\<lambda>t. name_t t = name_t later) (rev (xs @ earlier # ys @ later # zs)) = Some later"
proof -
  have "find (\<lambda>t. name_t t = name_t later) (rev zs) = None"
    using assms by (simp add: find_None_iff)
  then show ?thesis by (simp add: find_append)
qed

lemma resolveCurrent_ids:
  assumes "resolveCurrent ts (ist, isf, itt, itf) = Some (cst, csf, ctt, ctf)"
  shows "map_get (tableNameToCurrentId ts) (name_t ist) = Some (id_t cst)"
    and "map_get (tableNameToCurrentId ts) (name_t itt) = Some (id_t ctt)"
  using assms
  by (auto simp: resolveCurrent_def truthyId_def split: option.splits if_splits dest!: find_SomeD)

lemma mapRelationship_SomeD:
  assumes "mapRelationship cur imp ts newId now rel = Some r"
  obtains ist isf itt itf cst csf ctt ctf where
    "resolveEndpoints (tables imp) rel = Some (ist, isf, itt, itf)"
    "resolveCurrent ts (ist, isf, itt, itf) = Some (cst, csf, ctt, ctf)"
    "\<not> list_ex (sameEndpoints (cst, csf, ctt, ctf)) (relationships cur)"
    "sourceTableId r = id_t cst" "targetTableId r = id_t ctt"
    "sourceFieldId r = id_f csf" "targetFieldId r = id_f ctf"
    "id_r r = newId" "createdAt r = now"
  using assms
  by (auto simp: mapRelationship_def split: option.splits if_splits prod.splits)

text \<open>
  Claim C10.  The addition pass resolves endpoint tables through a map keyed by the table
  name alone.  When the post-reconciliation tables hold two tables of the same name in
  different schemas, the later one's id overwrites the earlier one's in the map: the name
  maps to the id of the later table, and every relationship the pass creates whose imported
  source (or target) table has that name gets the later table's id as its source (or
  target) table id, whatever the schema of the imported table.
\<close>

theorem endpoint_tables_resolved_by_name_alone:
  assumes tabs: "updatedTables = xs @ earlier # ys @ later # zs"
      and same: "name_t earlier = name_t later"
      and schemas: "schema_t earlier \<noteq> schema_t later"
      and last: "\<forall>t\<in>set zs. name_t t \<noteq> name_t later"
  shows "map_get (tableNameToCurrentId updatedTables) (name_t later) = Some (id_t later)
    \<and> (\<forall>rel ist isf itt itf r.
          resolveEndpoints (tables importedDiagram) rel = Some (ist, isf, itt, itf) \<and>
          mapRelationship currentDiagram importedDiagram updatedTables newId now rel = Some r
          \<longrightarrow> (name_t ist = name_t later \<longrightarrow> sourceTableId r = id_t later)
            \<and> (name_t itt = name_t later \<longrightarrow> targetTableId r = id_t later))"
proof -
  have look: "map_get (tableNameToCurrentId updatedTables) (name_t later) = Some (id_t later)"
    unfolding tabs tableNameToCurrentId_last using find_rev_later [OF last] by simp
  have rels: "(name_t ist = name_t later \<longrightarrow> sourceTableId r = id_t later)
            \<and> (name_t itt = name_t later \<longrightarrow> targetTableId r = id_t later)"
    if res: "resolveEndpoints (tables importedDiagram) rel = Some (ist, isf, itt, itf)"
    and m: "mapRelationship currentDiagram importedDiagram updatedTables newId now rel = Some r"
    for rel ist isf itt itf r
  proof -
    from m obtain ist' isf' itt' itf' cst csf ctt ctf where
      r': "resolveEndpoints (tables importedDiagram) rel = Some (ist', isf', itt', itf')"
      and c: "resolveCurrent updatedTables (ist', isf', itt', itf') = Some (cst, csf, ctt, ctf)"
      and ids: "sourceTableId r = id_t cst" "targetTableId r = id_t ctt"
      by (rule mapRelationship_SomeD)
    from res r' have eq: "ist' = ist" "itt' = itt" "isf' = isf" "itf' = itf" by simp_all
    from resolveCurrent_ids [OF c [unfolded eq]] look ids show ?thesis by auto
  qed
  from look rels show ?thesis by blast
qed

theorem endpoint_tables_resolved_by_name_alone_witness:
  "name_t exSalesItems = name_t exStockItems \<and> schema_t exSalesItems \<noteq> schema_t exStockItems
   \<and> map_get (tableNameToCurrentId [exSalesItems, exStockItems]) ''Items'' = Some ''s2''
   \<and> resolveEndpoints [exSalesItems, exStockItems] exRelItemsSelf
       = Some (exSalesItems, \<lparr>id_f = ''g1'', name_f = ''id'', type_f = ''int''\<rparr>,
               exSalesItems, \<lparr>id_f = ''g1'', name_f = ''id'', type_f = ''int''\<rparr>)
   \<and> map_option sourceTableId
        (mapRelationship \<lparr>tables = [exSalesItems, exStockItems], relationships = []\<rparr>
           \<lparr>tables = [exSalesItems, exStockItems], relationships = [exRelItemsSelf]\<rparr>
           [exSalesItems, exStockItems] ''r'' 1000 exRelItemsSelf) = Some ''s2''"
proof -
  have tabs: "[exSalesItems, exStockItems] = [] @ exSalesItems # [] @ exStockItems # []" by simp
  have same: "name_t exSalesItems = name_t exStockItems"
    and schemas: "schema_t exSalesItems \<noteq> schema_t exStockItems"
    and last: "\<forall>t\<in>set []. name_t t \<noteq> name_t exStockItems"
    by (simp_all add: exSalesItems_def exStockItems_def)
  have res: "resolveEndpoints [exSalesItems, exStockItems] exRelItemsSelf
       = Some (exSalesItems, \<lparr>id_f = ''g1'', name_f = ''id'', type_f = ''int''\<rparr>,
               exSalesItems, \<lparr>id_f = ''g1'', name_f = ''id'', type_f = ''int''\<rparr>)"
    by (simp add: resolveEndpoints_def exSalesItems_def exStockItems_def exRelItemsSelf_def)
  have m: "mapRelationship \<lparr>tables = [exSalesItems, exStockItems], relationships = []\<rparr>
           \<lparr>tables = [exSalesItems, exStockItems], relationships = [exRelItemsSelf]\<rparr>
           [exSalesItems, exStockItems] ''r'' 1000 exRelItemsSelf \<noteq> None"
  proof -
    have cur: "resolveCurrent [exSalesItems, exStockItems]
        (exSalesItems, \<lparr>id_f = ''g1'', name_f = ''id'', type_f = ''int''\<rparr>,
         exSalesItems, \<lparr>id_f = ''g1'', name_f = ''id'', type_f = ''int''\<rparr>)
       = Some (exStockItems, \<lparr>id_f = ''g2'', name_f = ''id'', type_f = ''int''\<rparr>,
               exStockItems, \<lparr>id_f = ''g2'', name_f = ''id'', type_f = ''int''\<rparr>)"
      by (simp add: resolveCurrent_def tableNameToCurrentId_def map_get_def
          truthyId_def exSalesItems_def exStockItems_def)
    show ?thesis by (simp add: mapRelationship_def res cur)
  qed
  note main = endpoint_tables_resolved_by_name_alone [OF tabs same schemas last,
      of "\<lparr>tables = [exSalesItems, exStockItems], relationships = [exRelItemsSelf]\<rparr>"
         "\<lparr>tables = [exSalesItems, exStockItems], relationships = []\<rparr>" "''r''" 1000]
  from main res m same schemas show ?thesis
    by (auto simp: exStockItems_def)
qed

lemma mapRelationship_None_any:
  "mapRelationship cur imp ts newId now rel = None \<Longrightarrow>
   mapRelationship cur imp ts newId' now' rel = None"
  by (auto simp: mapRelationship_def split: option.splits if_splits prod.splits)

lemma mapRelationship_tables_only:
  "tables imp = tables imp' \<Longrightarrow>
   mapRelationship cur imp ts newId now rel = mapRelationship cur imp' ts newId now rel"
  by (simp add: mapRelationship_def)

lemma mapRelationships_tables_only:
  "tables imp = tables imp' \<Longrightarrow>
   mapRelationships env cur imp ts n rels = mapRelationships env cur imp' ts n rels"
  by (induction rels arbitrary: n)
     (simp_all add: mapRelationship_tables_only [of imp imp'] split: option.splits)

lemma mapRelationships_skip:
  assumes "mapRelationship cur imp ts newId now rel = None"
  shows "mapRelationships env cur imp ts n (rs1 @ rel # rs2) =
         mapRelationships env cur imp ts n (rs1 @ rs2)"
proof (induction rs1 arbitrary: n)
  case Nil
  show ?case using mapRelationship_None_any [OF assms] by simp
next
  case (Cons r rs1)
  then show ?case by (simp split: option.splits)
qed

lemma relationshipsToAdd_skip:
  assumes "mapRelationship cur imp ts newId now rel = None"
  shows "relationshipsToAdd env cur (imp\<lparr>relationships := rs1 @ rel # rs2\<rparr>) ts =
         relationshipsToAdd env cur (imp\<lparr>relationships := rs1 @ rs2\<rparr>) ts"
proof -
  have t1: "tables (imp\<lparr>relationships := rs1 @ rel # rs2\<rparr>) = tables imp"
   and t2: "tables (imp\<lparr>relationships := rs1 @ rs2\<rparr>) = tables imp" by simp_all
  show ?thesis
    unfolding relationshipsToAdd_def
    by (simp add: mapRelationships_tables_only [OF t1] mapRelationships_tables_only [OF t2]
        mapRelationships_skip [OF assms])
qed

text \<open>
  Claim C6.  When the endpoints of an imported relationship resolve, first in the imported
  schema and then in the post-reconciliation tables, to a source table, source field,
  target table and target field for which the current diagram already holds a relationship
  with the same four ids, in this direction or the reverse, the callback returns nothing
  for it and the addition pass produces the same relationships as it does without it.
\<close>

theorem existing_relationship_not_added_again:
  assumes imported: "resolveEndpoints (tables importedDiagram) rel = Some e"
      and current: "resolveCurrent updatedTables e = Some (st, sf, tt, tf)"
      and existing: "\<exists>existingRel\<in>set (relationships currentDiagram).
          (sourceTableId existingRel = id_t st \<and> targetTableId existingRel = id_t tt \<and>
           sourceFieldId existingRel = id_f sf \<and> targetFieldId existingRel = id_f tf) \<or>
          (sourceTableId existingRel = id_t tt \<and> targetTableId existingRel = id_t st \<and>
           sourceFieldId existingRel = id_f tf \<and> targetFieldId existingRel = id_f sf)"
  shows "mapRelationship currentDiagram importedDiagram updatedTables newId now rel = None
    \<and> relationshipsToAdd env currentDiagram
          (importedDiagram\<lparr>relationships := rs1 @ rel # rs2\<rparr>) updatedTables =
      relationshipsToAdd env currentDiagram
          (importedDiagram\<lparr>relationships := rs1 @ rs2\<rparr>) updatedTables"
proof -
  have "list_ex (sameEndpoints (st, sf, tt, tf)) (relationships currentDiagram)"
    using existing by (simp add: list_ex_iff sameEndpoints_def)
  then have none: "mapRelationship currentDiagram importedDiagram updatedTables newId now rel = None"
    using imported current by (cases e) (simp add: mapRelationship_def)
  from none relationshipsToAdd_skip [OF none] show ?thesis by simp
qed

theorem existing_relationship_not_added_again_witness:
  "resolveEndpoints (tables exImportedSame) exRelUsersOrdersImported
     = Some (exUsersImported, \<lparr>id_f = ''n2'', name_f = ''id'', type_f = ''int''\<rparr>,
             exOrdersImported, \<lparr>id_f = ''n10'', name_f = ''user_id'', type_f = ''int''\<rparr>)
   \<and> resolveCurrent [exUsers, exOrders]
        (exUsersImported, \<lparr>id_f = ''n2'', name_f = ''id'', type_f = ''int''\<rparr>,
         exOrdersImported, \<lparr>id_f = ''n10'', name_f = ''user_id'', type_f = ''int''\<rparr>)
     = Some (exUsers, \<lparr>id_f = ''f1'', name_f = ''id'', type_f = ''int''\<rparr>,
             exOrders, \<lparr>id_f = ''f4'', name_f = ''user_id'', type_f = ''int''\<rparr>)
   \<and> mapRelationship exDiagram exImportedSame [exUsers, exOrders] ''r'' 1000
        exRelUsersOrdersImported = None"
proof -
  have h1: "resolveEndpoints (tables exImportedSame) exRelUsersOrdersImported
     = Some (exUsersImported, \<lparr>id_f = ''n2'', name_f = ''id'', type_f = ''int''\<rparr>,
             exOrdersImported, \<lparr>id_f = ''n10'', name_f = ''user_id'', type_f = ''int''\<rparr>)"
    by (simp add: resolveEndpoints_def dia_defs rel_defs ex_defs)
  have h2: "resolveCurrent [exUsers, exOrders]
        (exUsersImported, \<lparr>id_f = ''n2'', name_f = ''id'', type_f = ''int''\<rparr>,
         exOrdersImported, \<lparr>id_f = ''n10'', name_f = ''user_id'', type_f = ''int''\<rparr>)
     = Some (exUsers, \<lparr>id_f = ''f1'', name_f = ''id'', type_f = ''int''\<rparr>,
             exOrders, \<lparr>id_f = ''f4'', name_f = ''user_id'', type_f = ''int''\<rparr>)"
    by (simp add: resolveCurrent_def tableNameToCurrentId_def map_get_def truthyId_def ex_defs)
  have h3: "\<exists>existingRel\<in>set (relationships exDiagram).
          (sourceTableId existingRel = id_t exUsers \<and> targetTableId existingRel = id_t exOrders \<and>
           sourceFieldId existingRel = id_f \<lparr>id_f = ''f1'', name_f = ''id'', type_f = ''int''\<rparr> \<and>
           targetFieldId existingRel = id_f \<lparr>id_f = ''f4'', name_f = ''user_id'', type_f = ''int''\<rparr>) \<or>
          (sourceTableId existingRel = id_t exOrders \<and> targetTableId existingRel = id_t exUsers \<and>
           sourceFieldId existingRel = id_f \<lparr>id_f = ''f4'', name_f = ''user_id'', type_f = ''int''\<rparr> \<and>
           targetFieldId existingRel = id_f \<lparr>id_f = ''f1'', name_f = ''id'', type_f = ''int''\<rparr>)"
    by (simp add: dia_defs rel_defs ex_defs)
  from existing_relationship_not_added_again [OF h1 h2 h3] h1 h2 show ?thesis by simp
qed

text \<open>
  Claim C7.  When a resolution step fails for an imported relationship (an endpoint table
  or field is not found in the imported schema, or its name is not found in the
  post-reconciliation tables), the callback returns nothing for it, the addition pass
  produces the same relationships as it does without it, and the apply does not end in
  its \<^verbatim>\<open>catch\<close> block as long as the importer, the store calls and the regeneration
  succeed: resolution failures are no cause of failure, in either session.
\<close>

theorem unresolved_relationship_skipped:
  assumes fails: "resolveEndpoints (tables importedDiagram) rel = None \<or>
      (\<exists>e. resolveEndpoints (tables importedDiagram) rel = Some e \<and>
           resolveCurrent updatedTables e = None)"
  shows "mapRelationship currentDiagram importedDiagram updatedTables newId now rel = None
    \<and> relationshipsToAdd env currentDiagram
          (importedDiagram\<lparr>relationships := rs1 @ rel # rs2\<rparr>) updatedTables =
      relationshipsToAdd env currentDiagram
          (importedDiagram\<lparr>relationships := rs1 @ rs2\<rparr>) updatedTables
    \<and> (\<forall>s imp. importDBMLToDiagram env (dbmlContent s) = Some imp
          \<and> \<not> rejected (issueStoreCalls env (plan_TableDBML env currentDiagram imp))
          \<and> regenerateDBML env
               (regeneratedDiagram currentDiagram (plan_TableDBML env currentDiagram imp)) \<noteq> None
          \<longrightarrow> outcome (applyDBMLChanges_TableDBML env currentDiagram s) \<noteq> Caught)
    \<and> (\<forall>s content t0 t1 imp. importDBMLToDiagram env content = Some imp
          \<and> \<not> rejected (issueStoreCalls env (plan_EditorTableDBML env currentDiagram imp))
          \<and> regenerateDBML env
               (regeneratedDiagram currentDiagram (plan_EditorTableDBML env currentDiagram imp)) \<noteq> None
          \<longrightarrow> outcome (applyDBMLChanges_EditorTableDBML env currentDiagram t0 t1 content s) \<noteq> Caught)"
proof -
  have none: "mapRelationship currentDiagram importedDiagram updatedTables newId now rel = None"
    using fails by (auto simp: mapRelationship_def split: prod.splits)
  have manual: "outcome (applyDBMLChanges_TableDBML env currentDiagram s) \<noteq> Caught"
    if "importDBMLToDiagram env (dbmlContent s) = Some imp"
       "\<not> rejected (issueStoreCalls env (plan_TableDBML env currentDiagram imp))"
       "regenerateDBML env
          (regeneratedDiagram currentDiagram (plan_TableDBML env currentDiagram imp)) \<noteq> None"
    for s imp
    using that by (auto simp: applyDBMLChanges_TableDBML_def Let_def split: option.splits)
  have auto: "outcome (applyDBMLChanges_EditorTableDBML env currentDiagram t0 t1 content s) \<noteq> Caught"
    if "importDBMLToDiagram env content = Some imp"
       "\<not> rejected (issueStoreCalls env (plan_EditorTableDBML env currentDiagram imp))"
       "regenerateDBML env
          (regeneratedDiagram currentDiagram (plan_EditorTableDBML env currentDiagram imp)) \<noteq> None"
    for s content t0 t1 imp
    using that by (auto simp: applyDBMLChanges_EditorTableDBML_def Let_def split: option.splits)
  from none relationshipsToAdd_skip [OF none] manual auto show ?thesis by blast
qed

lemma issueStoreCalls_accepted:
  assumes "\<And>c. storeAccepts env c"
  shows "\<not> rejected (issueStoreCalls env p)"
  by (simp add: issueStoreCalls_def awaitIf_def assms Let_def)

lemma exEnv_accepts: "storeAccepts (exEnv imp) c"
  and exEnv_imports: "importDBMLToDiagram (exEnv imp) content = Some imp"
  and exEnv_regenerates: "regenerateDBML (exEnv imp) d = Some ''Table Users {}''"
  by (simp_all add: exEnv_def)

theorem unresolved_relationship_skipped_witness:
  "resolveEndpoints (tables exImportedDangling) exRelDangling = None
   \<and> mapRelationship exDiagram exImportedDangling [exUsers, exOrders] ''r'' 1000 exRelDangling = None
   \<and> relationshipsToAdd (exEnv exImportedDangling) exDiagram
        (exImportedDangling\<lparr>relationships := [] @ exRelDangling # [exRelUsersOrdersImported]\<rparr>)
        [exUsers, exOrders]
     = relationshipsToAdd (exEnv exImportedDangling) exDiagram
        (exImportedDangling\<lparr>relationships := [] @ [exRelUsersOrdersImported]\<rparr>) [exUsers, exOrders]
   \<and> importDBMLToDiagram (exEnv exImportedDangling) (dbmlContent exTableDBMLSession)
       = Some exImportedDangling
   \<and> outcome (applyDBMLChanges_TableDBML (exEnv exImportedDangling) exDiagram exTableDBMLSession)
       \<noteq> Caught
   \<and> outcome (applyDBMLChanges_EditorTableDBML (exEnv exImportedDangling) exDiagram 1100 1200
        ''Table Users {'' exEditorSession) \<noteq> Caught"
proof -
  have h: "resolveEndpoints (tables exImportedDangling) exRelDangling = None"
    by (simp add: resolveEndpoints_def exImportedDangling_def rel_defs ex_defs)
  note main = unresolved_relationship_skipped [of exImportedDangling exRelDangling
      "[exUsers, exOrders]" exDiagram "''r''" 1000 "exEnv exImportedDangling" "[]"
      "[exRelUsersOrdersImported]"]
  from main h have m: "mapRelationship exDiagram exImportedDangling [exUsers, exOrders] ''r'' 1000
      exRelDangling = None"
    and a: "relationshipsToAdd (exEnv exImportedDangling) exDiagram
        (exImportedDangling\<lparr>relationships := [] @ exRelDangling # [exRelUsersOrdersImported]\<rparr>)
        [exUsers, exOrders]
     = relationshipsToAdd (exEnv exImportedDangling) exDiagram
        (exImportedDangling\<lparr>relationships := [] @ [exRelUsersOrdersImported]\<rparr>) [exUsers, exOrders]"
    and t: "\<And>s imp. importDBMLToDiagram (exEnv exImportedDangling) (dbmlContent s) = Some imp
          \<and> \<not> rejected (issueStoreCalls (exEnv exImportedDangling)
                 (plan_TableDBML (exEnv exImportedDangling) exDiagram imp))
          \<and> regenerateDBML (exEnv exImportedDangling)
               (regeneratedDiagram exDiagram (plan_TableDBML (exEnv exImportedDangling) exDiagram imp)) \<noteq> None
          \<Longrightarrow> outcome (applyDBMLChanges_TableDBML (exEnv exImportedDangling) exDiagram s) \<noteq> Caught"
    and e: "\<And>s content t0 t1 imp. importDBMLToDiagram (exEnv exImportedDangling) content = Some imp
          \<and> \<not> rejected (issueStoreCalls (exEnv exImportedDangling)
                 (plan_EditorTableDBML (exEnv exImportedDangling) exDiagram imp))
          \<and> regenerateDBML (exEnv exImportedDangling)
               (regeneratedDiagram exDiagram (plan_EditorTableDBML (exEnv exImportedDangling) exDiagram imp)) \<noteq> None
          \<Longrightarrow> outcome (applyDBMLChanges_EditorTableDBML (exEnv exImportedDangling) exDiagram t0 t1 content s) \<noteq> Caught"
    by blast+
  have o1: "outcome (applyDBMLChanges_TableDBML (exEnv exImportedDangling) exDiagram exTableDBMLSession)
       \<noteq> Caught"
    by (rule t [of _ exImportedDangling])
       (simp add: exEnv_imports exEnv_regenerates issueStoreCalls_accepted [OF exEnv_accepts])
  have o2: "outcome (applyDBMLChanges_EditorTableDBML (exEnv exImportedDangling) exDiagram 1100 1200
        ''Table Users {'' exEditorSession) \<noteq> Caught"
    by (rule e [of _ exImportedDangling])
       (simp add: exEnv_imports exEnv_regenerates issueStoreCalls_accepted [OF exEnv_accepts])
  from h m a o1 o2 show ?thesis by (simp add: exEnv_imports)
qed

section \<open>Properties of the pipeline\<close>

lemma follows_awaitIf:
  "follows run pre \<Longrightarrow> follows (awaitIf env b c run) (pre @ (if b then [c] else []))"
  by (auto simp: follows_def awaitIf_def)

lemma follows_issueStoreCalls: "follows (issueStoreCalls env p) (plannedCalls p)"
proof -
  have f0: "follows \<lparr>calls = [], rejected = False\<rparr> []" by (simp add: follows_def)
  show ?thesis
    unfolding issueStoreCalls_def plannedCalls_def Let_def
    using follows_awaitIf [OF follows_awaitIf [OF follows_awaitIf [OF follows_awaitIf
            [OF follows_awaitIf [OF f0]]]]]
    by simp
qed

lemma plannedCalls_sorted: "sorted_wrt (<) (map stepOf (plannedCalls p))"
  by (simp add: plannedCalls_def)

lemma plannedCalls_nonempty: "c \<in> set (plannedCalls p) \<Longrightarrow> \<not> emptyOperand c"
  by (auto simp: plannedCalls_def split: if_splits)

lemma issued_calls_ordered:
  "sorted_wrt (<) (map stepOf (calls (issueStoreCalls env p)))
   \<and> (\<forall>c\<in>set (calls (issueStoreCalls env p)). \<not> emptyOperand c)
   \<and> (\<exists>rest. plannedCalls p = calls (issueStoreCalls env p) @ rest)
   \<and> (\<not> rejected (issueStoreCalls env p) \<longrightarrow> calls (issueStoreCalls env p) = plannedCalls p)"
proof -
  have "follows (issueStoreCalls env p) (plannedCalls p)"
    by (rule follows_issueStoreCalls)
  then obtain rest where
    r: "plannedCalls p = calls (issueStoreCalls env p) @ rest"
    and c: "\<not> rejected (issueStoreCalls env p) \<longrightarrow> calls (issueStoreCalls env p) = plannedCalls p"
    unfolding follows_def by blast
  have s: "sorted_wrt (<) (map stepOf (calls (issueStoreCalls env p)))"
    using plannedCalls_sorted [of p] unfolding r by (rule sorted_wrt_prefix)
  have n: "\<forall>c\<in>set (calls (issueStoreCalls env p)). \<not> emptyOperand c"
    using plannedCalls_nonempty [of _ p] unfolding r by simp
  from s n r c show ?thesis by blast
qed

lemma untilRejected_accepted: "\<forall>x\<in>set xs. a x \<Longrightarrow> untilRejected a xs = xs"
  by (induction xs) auto

lemma untilRejected_append:
  "untilRejected a (xs @ ys) =
     (if \<forall>x\<in>set xs. a x then xs @ untilRejected a ys else untilRejected a xs)"
  by (induction xs) auto

lemma awaitIf_untilRejected:
  assumes c: "calls run = untilRejected (storeAccepts env) pre"
      and r: "rejected run = (\<exists>x\<in>set pre. \<not> storeAccepts env x)"
  shows "calls (awaitIf env b c run) =
           untilRejected (storeAccepts env) (pre @ (if b then [c] else []))
       \<and> rejected (awaitIf env b c run) =
           (\<exists>x\<in>set (pre @ (if b then [c] else [])). \<not> storeAccepts env x)"
proof (cases "rejected run")
  case True
  then show ?thesis using c r by (auto simp: awaitIf_def untilRejected_append)
next
  case False
  then have all: "\<forall>x\<in>set pre. storeAccepts env x" using r by simp
  then have "calls run = pre" using c by (simp add: untilRejected_accepted)
  then show ?thesis using False all by (simp add: awaitIf_def untilRejected_append)
qed

lemma issueStoreCalls_untilRejected:
  "calls (issueStoreCalls env p) = untilRejected (storeAccepts env) (plannedCalls p)
   \<and> rejected (issueStoreCalls env p) = (\<exists>c\<in>set (plannedCalls p). \<not> storeAccepts env c)"
proof -
  let ?inv = "\<lambda>run pre. calls run = untilRejected (storeAccepts env) pre
                 \<and> rejected run = (\<exists>x\<in>set pre. \<not> storeAccepts env x)"
  have step: "?inv (awaitIf env b c run) (pre @ (if b then [c] else []))" if "?inv run pre"
    for run pre b c
    using awaitIf_untilRejected [of run env pre b c] that by blast
  have i0: "?inv \<lparr>calls = [], rejected = False\<rparr> []" by simp
  show ?thesis
    unfolding issueStoreCalls_def plannedCalls_def Let_def
    using step [OF step [OF step [OF step [OF step [OF i0]]]]]
    by simp
qed

lemma exReconcile:
  "reconcileLoop [exUsers, exOrders] [exUsersImported, exProductsImported] =
     \<lparr>tableMap = [(''.Orders'', exOrders)],
      tablesToAdd = [exProductsImported],
      tablesToUpdate = [exUsers\<lparr>fields_t := [\<lparr>id_f = ''f1'', name_f = ''id'', type_f = ''int''\<rparr>,
                 \<lparr>id_f = ''f2'', name_f = ''name'', type_f = ''varchar''\<rparr>,
                 \<lparr>id_f = ''n4'', name_f = ''email'', type_f = ''varchar''\<rparr>]\<rparr>]\<rparr>"
  by (simp add: reconcileLoop_def currentTableMap_def processImportedTable_def map_get_def
      map_delete_def tableKey_def schemaOrEmpty_def tableWithPreservedIds_def preserveFieldId_def
      ex_defs Let_def)

lemma exPlan:
  "plan_TableDBML (exEnv exImported) exDiagram exImported =
     \<lparr>planRemoveTables = [exOrders],
      planRemoveRelationships = [exRelOrdersUsers],
      planUpdateTables = [exUsersUpdated],
      planAddTables = [exProductsImported],
      planUpdatedTables = [exUsersUpdated, exProductsImported],
      planAddRelationships = [exRelCreated]\<rparr>"
proof -
  have upd: "updatedDiagramTables [exUsers, exOrders] [exOrders] [exUsersUpdated] [exProductsImported]
      = [exUsersUpdated, exProductsImported]"
    by (simp add: updatedDiagramTables_def exUsersUpdated_def ex_defs)
  have rem: "relationshipsToRemove_TableDBML exDiagram [exOrders] [exUsersUpdated] = [exRelOrdersUsers]"
    by (simp add: relationshipsToRemove_TableDBML_def isConnectedToRemovedTable_def dia_defs
        rel_defs ex_defs)
  have res: "resolveEndpoints [exUsersImported, exProductsImported] exRelProductsUsersImported
     = Some (exProductsImported, \<lparr>id_f = ''n7'', name_f = ''user_id'', type_f = ''int''\<rparr>,
             exUsersImported, \<lparr>id_f = ''n2'', name_f = ''id'', type_f = ''int''\<rparr>)"
    by (simp add: resolveEndpoints_def rel_defs ex_defs)
  have cur: "resolveCurrent [exUsersUpdated, exProductsImported]
        (exProductsImported, \<lparr>id_f = ''n7'', name_f = ''user_id'', type_f = ''int''\<rparr>,
         exUsersImported, \<lparr>id_f = ''n2'', name_f = ''id'', type_f = ''int''\<rparr>)
     = Some (exProductsImported, \<lparr>id_f = ''n7'', name_f = ''user_id'', type_f = ''int''\<rparr>,
             exUsersUpdated, \<lparr>id_f = ''f1'', name_f = ''id'', type_f = ''int''\<rparr>)"
    by (simp add: resolveCurrent_def tableNameToCurrentId_def map_get_def truthyId_def
        exUsersUpdated_def ex_defs)
  have add: "relationshipsToAdd (exEnv exImported) exDiagram exImported
       [exUsersUpdated, exProductsImported] = [exRelCreated]"
    unfolding relationshipsToAdd_def
    by (simp add: exImported_def mapRelationship_def res cur)
       (simp add: exDiagram_def exEnv_def sameEndpoints_def rel_defs exRelCreated_def
          exUsersUpdated_def ex_defs schemaOrEmpty_def)
  show ?thesis
    unfolding plan_TableDBML_def
    by (simp add: exDiagram_def exImported_def exReconcile tablesToRemove_def map_values_def
        Let_def)
       (simp add: exUsersUpdated_def [symmetric] upd rem [unfolded exDiagram_def]
          add [unfolded exDiagram_def exImported_def])
qed

lemma plan_EditorTableDBML_as_TableDBML:
  "plan_EditorTableDBML env currentDiagram importedDiagram =
     (plan_TableDBML env currentDiagram importedDiagram)
       \<lparr>planRemoveRelationships :=
          relationshipsToRemove_EditorTableDBML currentDiagram importedDiagram
            (planRemoveTables (plan_TableDBML env currentDiagram importedDiagram))
            (planUpdateTables (plan_TableDBML env currentDiagram importedDiagram))\<rparr>"
  by (simp add: plan_EditorTableDBML_def plan_TableDBML_def Let_def)

lemma exPlanEditor:
  "plan_EditorTableDBML (exEnv exImported) exDiagram exImported =
     \<lparr>planRemoveTables = [exOrders],
      planRemoveRelationships = [exRelOrdersUsers],
      planUpdateTables = [exUsersUpdated],
      planAddTables = [exProductsImported],
      planUpdatedTables = [exUsersUpdated, exProductsImported],
      planAddRelationships = [exRelCreated]\<rparr>"
proof -
  have rem: "relationshipsToRemove_EditorTableDBML exDiagram exImported [exOrders] [exUsersUpdated]
     = [exRelOrdersUsers]"
    by (simp add: relationshipsToRemove_EditorTableDBML_def isConnectedToRemovedTable_def
        exDiagram_def exRelOrdersUsers_def exOrders_def)
  show ?thesis
    by (simp add: plan_EditorTableDBML_as_TableDBML exPlan rem)
qed

text \<open>
  Claim C4.  In both sessions the store calls of an apply run are issued in the order
  remove-tables, remove-relationships, update-tables, add-tables, add-relationships (the
  step numbers of the calls issued increase strictly), no call is issued with an empty
  operand, the calls issued are an initial segment of the planned calls (the five steps
  without those whose operand is empty), and a run that completes has issued all of them.
  A run that passes its guards and whose import succeeds issues exactly the planned calls
  up to and including the first one that the store rejects, hence every planned call, each
  once, when the store accepts them.  The guard of the explicit-apply session is the
  absence of a parse error; the auto-apply session also requires that no other run is in
  progress and that the text differs from the baseline.
\<close>

theorem store_mutations_in_fixed_order:
  "(let r = applyDBMLChanges_TableDBML env currentDiagram s in
      sorted_wrt (<) (map stepOf (storeCalls r))
    \<and> (\<forall>c\<in>set (storeCalls r). \<not> emptyOperand c)
    \<and> (\<forall>imp. importDBMLToDiagram env (dbmlContent s) = Some imp \<longrightarrow>
          (\<exists>rest. plannedCalls (plan_TableDBML env currentDiagram imp) = storeCalls r @ rest)
        \<and> (outcome r = Completed \<longrightarrow>
             storeCalls r = plannedCalls (plan_TableDBML env currentDiagram imp))
        \<and> (dbmlError s = None \<longrightarrow>
             storeCalls r = untilRejected (storeAccepts env)
                              (plannedCalls (plan_TableDBML env currentDiagram imp))
           \<and> ((\<forall>c\<in>set (plannedCalls (plan_TableDBML env currentDiagram imp)).
                  storeAccepts env c) \<longrightarrow>
                storeCalls r = plannedCalls (plan_TableDBML env currentDiagram imp)))))
   \<and> (let r = applyDBMLChanges_EditorTableDBML env currentDiagram nowStart nowEnd content s' in
      sorted_wrt (<) (map stepOf (storeCalls r))
    \<and> (\<forall>c\<in>set (storeCalls r). \<not> emptyOperand c)
    \<and> (\<forall>imp. importDBMLToDiagram env content = Some imp \<longrightarrow>
          (\<exists>rest. plannedCalls (plan_EditorTableDBML env currentDiagram imp) = storeCalls r @ rest)
        \<and> (outcome r = Completed \<longrightarrow>
             storeCalls r = plannedCalls (plan_EditorTableDBML env currentDiagram imp))
        \<and> (dbmlError s' = None \<and> \<not> changesInProgress s' \<and> \<not> isApplying s'
             \<and> content \<noteq> originalDbmlContent s' \<longrightarrow>
             storeCalls r = untilRejected (storeAccepts env)
                              (plannedCalls (plan_EditorTableDBML env currentDiagram imp))
           \<and> ((\<forall>c\<in>set (plannedCalls (plan_EditorTableDBML env currentDiagram imp)).
                  storeAccepts env c) \<longrightarrow>
                storeCalls r = plannedCalls (plan_EditorTableDBML env currentDiagram imp)))))"
proof -
  let ?rt = "applyDBMLChanges_TableDBML env currentDiagram s"
  let ?re = "applyDBMLChanges_EditorTableDBML env currentDiagram nowStart nowEnd content s'"
  have manual: "storeCalls ?rt = [] \<or>
     (\<exists>imp. importDBMLToDiagram env (dbmlContent s) = Some imp \<and>
        storeCalls ?rt = calls (issueStoreCalls env (plan_TableDBML env currentDiagram imp)) \<and>
        (outcome ?rt = Completed \<longrightarrow>
           \<not> rejected (issueStoreCalls env (plan_TableDBML env currentDiagram imp))))"
    by (auto simp: applyDBMLChanges_TableDBML_def Let_def split: option.splits)
  have auto: "storeCalls ?re = [] \<or>
     (\<exists>imp. importDBMLToDiagram env content = Some imp \<and>
        storeCalls ?re = calls (issueStoreCalls env (plan_EditorTableDBML env currentDiagram imp)) \<and>
        (outcome ?re = Completed \<longrightarrow>
           \<not> rejected (issueStoreCalls env (plan_EditorTableDBML env currentDiagram imp))))"
    by (auto simp: applyDBMLChanges_EditorTableDBML_def Let_def split: option.splits)
  have empty_done_m: "outcome ?rt = Completed \<Longrightarrow>
     \<exists>imp. importDBMLToDiagram env (dbmlContent s) = Some imp \<and>
        storeCalls ?rt = calls (issueStoreCalls env (plan_TableDBML env currentDiagram imp)) \<and>
        \<not> rejected (issueStoreCalls env (plan_TableDBML env currentDiagram imp))"
    by (auto simp: applyDBMLChanges_TableDBML_def Let_def split: option.splits if_splits)
  have empty_done_a: "outcome ?re = Completed \<Longrightarrow>
     \<exists>imp. importDBMLToDiagram env content = Some imp \<and>
        storeCalls ?re = calls (issueStoreCalls env (plan_EditorTableDBML env currentDiagram imp)) \<and>
        \<not> rejected (issueStoreCalls env (plan_EditorTableDBML env currentDiagram imp))"
    by (auto simp: applyDBMLChanges_EditorTableDBML_def Let_def split: option.splits if_splits)
  have t1: "sorted_wrt (<) (map stepOf (storeCalls ?rt))"
    using manual issued_calls_ordered [of env "plan_TableDBML env currentDiagram _"]
    by (metis sorted_wrt.simps(1) list.simps(8))
  have t2: "\<forall>c\<in>set (storeCalls ?rt). \<not> emptyOperand c"
    using manual issued_calls_ordered [of env "plan_TableDBML env currentDiagram _"]
    by (metis empty_iff list.set(1))
  have t3: "\<exists>rest. plannedCalls (plan_TableDBML env currentDiagram imp) = storeCalls ?rt @ rest"
    if "importDBMLToDiagram env (dbmlContent s) = Some imp" for imp
    using that manual issued_calls_ordered [of env "plan_TableDBML env currentDiagram _"]
    by (metis append_Nil option.inject)
  have t4: "storeCalls ?rt = plannedCalls (plan_TableDBML env currentDiagram imp)"
    if "importDBMLToDiagram env (dbmlContent s) = Some imp" "outcome ?rt = Completed" for imp
    using that empty_done_m issued_calls_ordered [of env "plan_TableDBML env currentDiagram _"]
    by (metis option.inject)
  have t5: "storeCalls ?rt = untilRejected (storeAccepts env)
                              (plannedCalls (plan_TableDBML env currentDiagram imp))"
    if "importDBMLToDiagram env (dbmlContent s) = Some imp" "dbmlError s = None" for imp
    using that
    by (simp add: applyDBMLChanges_TableDBML_def Let_def issueStoreCalls_untilRejected
        split: option.splits)
  have t6: "storeCalls ?rt = plannedCalls (plan_TableDBML env currentDiagram imp)"
    if "importDBMLToDiagram env (dbmlContent s) = Some imp" "dbmlError s = None"
       "\<forall>c\<in>set (plannedCalls (plan_TableDBML env currentDiagram imp)). storeAccepts env c" for imp
    using t5 [OF that(1,2)] that(3) by (simp add: untilRejected_accepted)
  have e1: "sorted_wrt (<) (map stepOf (storeCalls ?re))"
    using auto issued_calls_ordered [of env "plan_EditorTableDBML env currentDiagram _"]
    by (metis sorted_wrt.simps(1) list.simps(8))
  have e2: "\<forall>c\<in>set (storeCalls ?re). \<not> emptyOperand c"
    using auto issued_calls_ordered [of env "plan_EditorTableDBML env currentDiagram _"]
    by (metis empty_iff list.set(1))
  have e3: "\<exists>rest. plannedCalls (plan_EditorTableDBML env currentDiagram imp) = storeCalls ?re @ rest"
    if "importDBMLToDiagram env content = Some imp" for imp
    using that auto issued_calls_ordered [of env "plan_EditorTableDBML env currentDiagram _"]
    by (metis append_Nil option.inject)
  have e4: "storeCalls ?re = plannedCalls (plan_EditorTableDBML env currentDiagram imp)"
    if "importDBMLToDiagram env content = Some imp" "outcome ?re = Completed" for imp
    using that empty_done_a issued_calls_ordered [of env "plan_EditorTableDBML env currentDiagram _"]
    by (metis option.inject)
  have e5: "storeCalls ?re = untilRejected (storeAccepts env)
                              (plannedCalls (plan_EditorTableDBML env currentDiagram imp))"
    if "importDBMLToDiagram env content = Some imp"
       "dbmlError s' = None \<and> \<not> changesInProgress s' \<and> \<not> isApplying s'
             \<and> content \<noteq> originalDbmlContent s'" for imp
    using that
    by (simp add: applyDBMLChanges_EditorTableDBML_def Let_def issueStoreCalls_untilRejected
        split: option.splits)
  have e6: "storeCalls ?re = plannedCalls (plan_EditorTableDBML env currentDiagram imp)"
    if "importDBMLToDiagram env content = Some imp"
       "dbmlError s' = None \<and> \<not> changesInProgress s' \<and> \<not> isApplying s'
             \<and> content \<noteq> originalDbmlContent s'"
       "\<forall>c\<in>set (plannedCalls (plan_EditorTableDBML env currentDiagram imp)). storeAccepts env c"
    for imp
    using e5 [OF that(1,2)] that(3) by (simp add: untilRejected_accepted)
  have T: "\<forall>imp. importDBMLToDiagram env (dbmlContent s) = Some imp \<longrightarrow>
          (\<exists>rest. plannedCalls (plan_TableDBML env currentDiagram imp) = storeCalls ?rt @ rest)
        \<and> (outcome ?rt = Completed \<longrightarrow>
             storeCalls ?rt = plannedCalls (plan_TableDBML env currentDiagram imp))
        \<and> (dbmlError s = None \<longrightarrow>
             storeCalls ?rt = untilRejected (storeAccepts env)
                              (plannedCalls (plan_TableDBML env currentDiagram imp))
           \<and> ((\<forall>c\<in>set (plannedCalls (plan_TableDBML env currentDiagram imp)).
                  storeAccepts env c) \<longrightarrow>
                storeCalls ?rt = plannedCalls (plan_TableDBML env currentDiagram imp)))"
    using t3 t4 t5 t6 by blast
  have E: "\<forall>imp. importDBMLToDiagram env content = Some imp \<longrightarrow>
          (\<exists>rest. plannedCalls (plan_EditorTableDBML env currentDiagram imp) = storeCalls ?re @ rest)
        \<and> (outcome ?re = Completed \<longrightarrow>
             storeCalls ?re = plannedCalls (plan_EditorTableDBML env currentDiagram imp))
        \<and> (dbmlError s' = None \<and> \<not> changesInProgress s' \<and> \<not> isApplying s'
             \<and> content \<noteq> originalDbmlContent s' \<longrightarrow>
             storeCalls ?re = untilRejected (storeAccepts env)
                              (plannedCalls (plan_EditorTableDBML env currentDiagram imp))
           \<and> ((\<forall>c\<in>set (plannedCalls (plan_EditorTableDBML env currentDiagram imp)).
                  storeAccepts env c) \<longrightarrow>
                storeCalls ?re = plannedCalls (plan_EditorTableDBML env currentDiagram imp)))"
    using e3 e4 e5 e6 by blast
  show ?thesis
    unfolding Let_def using t1 t2 T e1 e2 E by (intro conjI) assumption+
qed

theorem store_mutations_in_fixed_order_witness:
  "dbmlError exTableDBMLSession = None
   \<and> importDBMLToDiagram (exEnv exImported) (dbmlContent exTableDBMLSession) = Some exImported
   \<and> storeCalls (applyDBMLChanges_TableDBML (exEnv exImported) exDiagram exTableDBMLSession)
       = [RemoveTables [''t2''], RemoveRelationships [''r1''], UpdateTablesState [exUsersUpdated],
          AddTables [exProductsImported], AddRelationships [exRelCreated]]
   \<and> map stepOf (storeCalls (applyDBMLChanges_TableDBML (exEnv exImported) exDiagram
         exTableDBMLSession)) = [1, 2, 3, 4, 5]
   \<and> dbmlError exEditorSession = None \<and> \<not> changesInProgress exEditorSession
   \<and> \<not> isApplying exEditorSession
   \<and> ''Table Users { id int }'' \<noteq> originalDbmlContent exEditorSession
   \<and> importDBMLToDiagram (exEnv exImported) ''Table Users { id int }'' = Some exImported
   \<and> storeCalls (applyDBMLChanges_EditorTableDBML (exEnv exImported) exDiagram 1100 1200
        ''Table Users { id int }'' exEditorSession)
       = [RemoveTables [''t2''], RemoveRelationships [''r1''], UpdateTablesState [exUsersUpdated],
          AddTables [exProductsImported], AddRelationships [exRelCreated]]
   \<and> map stepOf (storeCalls (applyDBMLChanges_EditorTableDBML (exEnv exImported) exDiagram
        1100 1200 ''Table Users { id int }'' exEditorSession)) = [1, 2, 3, 4, 5]"
proof -
  have imp: "importDBMLToDiagram (exEnv exImported) c = Some exImported" for c
    by (simp add: exEnv_def)
  have acc: "storeAccepts (exEnv exImported) c" for c by (simp add: exEnv_def)
  have gt: "dbmlError exTableDBMLSession = None" by (simp add: exTableDBMLSession_def)
  have ge: "dbmlError exEditorSession = None \<and> \<not> changesInProgress exEditorSession
      \<and> \<not> isApplying exEditorSession
      \<and> ''Table Users { id int }'' \<noteq> originalDbmlContent exEditorSession"
    by (simp add: exEditorSession_def)
  have pt: "plannedCalls (plan_TableDBML (exEnv exImported) exDiagram exImported)
     = [RemoveTables [''t2''], RemoveRelationships [''r1''], UpdateTablesState [exUsersUpdated],
          AddTables [exProductsImported], AddRelationships [exRelCreated]]"
    by (simp add: exPlan plannedCalls_def exOrders_def exRelOrdersUsers_def)
  have pe: "plannedCalls (plan_EditorTableDBML (exEnv exImported) exDiagram exImported)
     = [RemoveTables [''t2''], RemoveRelationships [''r1''], UpdateTablesState [exUsersUpdated],
          AddTables [exProductsImported], AddRelationships [exRelCreated]]"
    by (simp add: exPlanEditor plannedCalls_def exOrders_def exRelOrdersUsers_def)
  note main = store_mutations_in_fixed_order [of "exEnv exImported" exDiagram exTableDBMLSession
      1100 1200 "''Table Users { id int }''" exEditorSession, unfolded Let_def]
  from main imp gt acc
  have ct: "storeCalls (applyDBMLChanges_TableDBML (exEnv exImported) exDiagram exTableDBMLSession)
     = plannedCalls (plan_TableDBML (exEnv exImported) exDiagram exImported)"
    by blast
  from main imp ge acc
  have ce: "storeCalls (applyDBMLChanges_EditorTableDBML (exEnv exImported) exDiagram 1100 1200
        ''Table Users { id int }'' exEditorSession)
     = plannedCalls (plan_EditorTableDBML (exEnv exImported) exDiagram exImported)"
    by blast
  show ?thesis
    unfolding ct ce pt pe using imp gt ge by simp
qed

section \<open>Properties of the sessions\<close>

text \<open>
  Claim C5.  With a parse error present in the session, the apply returns early: no store
  call is issued, the session is unchanged and no apply failure is notified.  The
  explicit-apply session shows its \<^verbatim>\<open>'DBML Error'\<close> toast; the auto-apply session
  shows nothing.
\<close>

theorem apply_with_parse_error_is_noop:
  "(dbmlError s = Some e \<longrightarrow>
      (let r = applyDBMLChanges_TableDBML env currentDiagram s in
         outcome r = EarlyReturn \<and> storeCalls r = [] \<and> session r = s
         \<and> toasts r = [DBMLErrorToast e] \<and> ApplyFailedToast \<notin> set (toasts r)))
   \<and> (dbmlError s' = Some e' \<longrightarrow>
      (let r = applyDBMLChanges_EditorTableDBML env currentDiagram nowStart nowEnd content s' in
         outcome r = EarlyReturn \<and> storeCalls r = [] \<and> session r = s' \<and> toasts r = []))"
  by (simp add: applyDBMLChanges_TableDBML_def applyDBMLChanges_EditorTableDBML_def Let_def)

theorem apply_with_parse_error_is_noop_witness:
  "dbmlError (exTableDBMLSession\<lparr>dbmlError := Some exError\<rparr>) = Some exError
   \<and> outcome (applyDBMLChanges_TableDBML (exEnv exImported) exDiagram
        (exTableDBMLSession\<lparr>dbmlError := Some exError\<rparr>)) = EarlyReturn
   \<and> storeCalls (applyDBMLChanges_TableDBML (exEnv exImported) exDiagram
        (exTableDBMLSession\<lparr>dbmlError := Some exError\<rparr>)) = []
   \<and> dbmlError (exEditorSession\<lparr>dbmlError := Some exError\<rparr>) = Some exError
   \<and> outcome (applyDBMLChanges_EditorTableDBML (exEnv exImported) exDiagram 1100 1200
        ''Table Users {'' (exEditorSession\<lparr>dbmlError := Some exError\<rparr>)) = EarlyReturn
   \<and> storeCalls (applyDBMLChanges_EditorTableDBML (exEnv exImported) exDiagram 1100 1200
        ''Table Users {'' (exEditorSession\<lparr>dbmlError := Some exError\<rparr>)) = []"
  using apply_with_parse_error_is_noop [of "exTableDBMLSession\<lparr>dbmlError := Some exError\<rparr>" exError
      "exEnv exImported" exDiagram "exEditorSession\<lparr>dbmlError := Some exError\<rparr>" exError
      1100 1200 "''Table Users {''"]
  by (simp add: Let_def)

lemma recordBaseline_recent:
  assumes "userHasEdited s" and "now - lastUpdateTime s < 500"
  shows "recordBaseline wasUserEditing now updatedDBML s =
           s\<lparr>originalDbmlContent := updatedDBML, lastValidContent := updatedDBML\<rparr>"
proof -
  have "updateEditorContent now updatedDBML s = s"
    using assms by (simp add: updateEditorContent_def split: option.splits)
  then show ?thesis by (simp add: recordBaseline_def)
qed

lemma rerender_frame:
  "userHasEdited (rerender env taken cs s) = userHasEdited s
   \<and> lastUpdateTime (rerender env taken cs s) = lastUpdateTime s
   \<and> editorText (rerender env taken cs s) = editorText s
   \<and> dbmlError (rerender env taken cs s) = dbmlError s
   \<and> isApplying (rerender env taken cs s) = isApplying s
   \<and> changesInProgress (rerender env taken cs s) = changesInProgress s"
  by (induction cs arbitrary: taken s) (simp_all add: onGenerateDBML_def)

lemma rerender_last_changed:
  "generatedDBML env (taken @ cs) \<noteq> generatedDBML env (taken @ butlast cs) \<Longrightarrow>
   dbmlContent (rerender env taken cs s) = generatedDBML env (taken @ cs)"
proof (induction cs arbitrary: taken s)
  case Nil
  then show ?case by simp
next
  case (Cons c cs)
  show ?case
  proof (cases "cs = []")
    case True
    with Cons.prems show ?thesis by (simp add: onGenerateDBML_def)
  next
    case False
    with Cons.prems
    have "generatedDBML env ((taken @ [c]) @ cs) \<noteq> generatedDBML env ((taken @ [c]) @ butlast cs)"
      by simp
    from Cons.IH [OF this] show ?thesis by simp
  qed
qed

lemma mapRelationships_env:
  "mapRelationships (env\<lparr>regenerateDBML := a, generatedDBML := b\<rparr>) cd imp ut n rels
   = mapRelationships env cd imp ut n rels"
  by (induction rels arbitrary: n) (simp_all split: option.splits)

lemma plan_EditorTableDBML_env:
  "plan_EditorTableDBML (env\<lparr>regenerateDBML := a, generatedDBML := b\<rparr>) cd imp
   = plan_EditorTableDBML env cd imp"
  by (simp add: plan_EditorTableDBML_def relationshipsToAdd_def mapRelationships_env Let_def)

text \<open>
  Claim C8 does not hold of the auto-apply session.  The end of the run does what the
  claim says (\<open>recordBaseline_recent\<close>): with a keystroke less than 500 ms old it leaves
  the editor and \<open>dbmlContent\<close> alone and records the regenerated text as the baseline.
  But the run is not the only writer.  When the run passes its guards, the store accepts
  its calls and the generated text changes with the last of them, then the effect on
  \<^verbatim>\<open>generateDBML\<close> has replaced \<open>dbmlContent\<close>, the text that the component hands to
  the editor widget as its \<^verbatim>\<open>code\<close>, with the generated text by the time the run
  completes, although the user has edited and the last keystroke is less than 500 ms old
  then (a later cursor move only raises \<open>lastUpdateTime\<close>).  The baseline is the
  regenerated text, as the claim says.
\<close>

theorem generated_text_replaces_content_while_typing:
  assumes noError: "dbmlError s = None"
      and idle: "\<not> changesInProgress s \<and> \<not> isApplying s"
      and differs: "content \<noteq> originalDbmlContent s"
      and edited: "userHasEdited s"
      and keystroke: "lastKeystroke \<le> lastUpdateTime s"
      and recent: "nowEnd - lastKeystroke < 500"
      and imp: "importDBMLToDiagram env content = Some imp"
      and accepted: "\<forall>c\<in>set (plannedCalls (plan_EditorTableDBML env currentDiagram imp)).
                       storeAccepts env c"
      and regen: "regenerateDBML env
                    (regeneratedDiagram currentDiagram (plan_EditorTableDBML env currentDiagram imp))
                  = Some updatedDBML"
      and newText: "generatedDBML env (plannedCalls (plan_EditorTableDBML env currentDiagram imp))
                  \<noteq> generatedDBML env
                       (butlast (plannedCalls (plan_EditorTableDBML env currentDiagram imp)))"
  shows "let r = applyDBMLChanges_EditorTableDBML env currentDiagram nowStart nowEnd content s in
           outcome r = Completed
         \<and> storeCalls r = plannedCalls (plan_EditorTableDBML env currentDiagram imp)
         \<and> dbmlContent (session r)
             = generatedDBML env (plannedCalls (plan_EditorTableDBML env currentDiagram imp))
         \<and> originalDbmlContent (session r) = updatedDBML
         \<and> lastValidContent (session r) = updatedDBML"
proof -
  let ?p = "plan_EditorTableDBML env currentDiagram imp"
  let ?s0 = "s\<lparr>isApplying := True, changesInProgress := True\<rparr>"
  let ?s1 = "rerender env [] (plannedCalls ?p) ?s0"
  have run: "calls (issueStoreCalls env ?p) = plannedCalls ?p"
    and ok: "\<not> rejected (issueStoreCalls env ?p)"
    using issueStoreCalls_untilRejected [of env ?p] accepted
    by (simp_all add: untilRejected_accepted)
  have acc: "acceptedCalls (issueStoreCalls env ?p) = plannedCalls ?p"
    by (simp add: acceptedCalls_def ok run)
  have e1: "userHasEdited ?s1" and r1: "nowEnd - lastUpdateTime ?s1 < 500"
    using edited keystroke recent by (simp_all add: rerender_frame)
  note rb = recordBaseline_recent [OF e1 r1]
  have c1: "dbmlContent ?s1 = generatedDBML env (plannedCalls ?p)"
    using rerender_last_changed [of env "[]" "plannedCalls ?p" ?s0] newText by simp
  have res: "applyDBMLChanges_EditorTableDBML env currentDiagram nowStart nowEnd content s =
     \<lparr>outcome = Completed, storeCalls = plannedCalls ?p,
      toasts = (if changesCount ?p > 0 then [ChangesAppliedToast] else []),
      session = finallyBlock (?s1\<lparr>originalDbmlContent := updatedDBML,
                                  lastValidContent := updatedDBML\<rparr>)\<rparr>"
    using noError idle differs
    by (simp add: applyDBMLChanges_EditorTableDBML_def imp regen ok run acc rb Let_def)
  show ?thesis
    unfolding Let_def res by (simp add: finallyBlock_def c1)
qed

lemma exPlanShop:
  "plannedCalls (plan_EditorTableDBML exShopEnv exDiagram exImported)
     = [RemoveTables [''t2''], RemoveRelationships [''r1''], UpdateTablesState [exUsersUpdated],
        AddTables [exProductsImported], AddRelationships [exRelCreated]]"
  by (simp add: exShopEnv_def plan_EditorTableDBML_env exPlanEditor plannedCalls_def exOrders_def
      exRelOrdersUsers_def)

theorem generated_text_replaces_content_while_typing_witness:
  "userHasEdited exTypingSession \<and> (1000::int) \<le> lastUpdateTime exTypingSession
   \<and> (1200::int) - 1000 < 500
   \<and> dbmlContent exTypingSession = exTyped
   \<and> outcome (applyDBMLChanges_EditorTableDBML exShopEnv exDiagram 1000 1200 exTyped
        exTypingSession) = Completed
   \<and> dbmlContent (session (applyDBMLChanges_EditorTableDBML exShopEnv exDiagram 1000 1200 exTyped
        exTypingSession)) = ''Table Users {} Table Products {} Ref: Products > Users''
   \<and> dbmlContent (session (applyDBMLChanges_EditorTableDBML exShopEnv exDiagram 1000 1200 exTyped
        exTypingSession)) \<noteq> exTyped
   \<and> originalDbmlContent (session (applyDBMLChanges_EditorTableDBML exShopEnv exDiagram 1000 1200
        exTyped exTypingSession)) = ''Table Users {} Table Products {} Ref: Products > Users''"
proof -
  have h: "dbmlError exTypingSession = None"
    "\<not> changesInProgress exTypingSession \<and> \<not> isApplying exTypingSession"
    "exTyped \<noteq> originalDbmlContent exTypingSession"
    "userHasEdited exTypingSession" "(1000::int) \<le> lastUpdateTime exTypingSession"
    "(1200::int) - 1000 < 500"
    by (simp_all add: exTypingSession_def exTyped_def)
  have imp: "importDBMLToDiagram exShopEnv exTyped = Some exImported"
    by (simp add: exShopEnv_def exEnv_def)
  have acc: "\<forall>c\<in>set (plannedCalls (plan_EditorTableDBML exShopEnv exDiagram exImported)).
                storeAccepts exShopEnv c"
    by (simp add: exShopEnv_def exEnv_def)
  have regen: "regenerateDBML exShopEnv
       (regeneratedDiagram exDiagram (plan_EditorTableDBML exShopEnv exDiagram exImported))
      = Some ''Table Users {} Table Products {} Ref: Products > Users''"
    by (simp add: exShopEnv_def)
  have g: "generatedDBML exShopEnv cs = exGenerated cs" for cs by (simp add: exShopEnv_def)
  have g5: "exGenerated [RemoveTables [''t2''], RemoveRelationships [''r1''],
        UpdateTablesState [exUsersUpdated], AddTables [exProductsImported],
        AddRelationships [exRelCreated]] = ''Table Users {} Table Products {} Ref: Products > Users''"
    by (simp add: exGenerated_def)
  have g4: "exGenerated [RemoveTables [''t2''], RemoveRelationships [''r1''],
        UpdateTablesState [exUsersUpdated], AddTables [exProductsImported]]
      = ''Table Users {} Table Products {}''"
    by (simp add: exGenerated_def)
  have new: "generatedDBML exShopEnv (plannedCalls (plan_EditorTableDBML exShopEnv exDiagram exImported))
      \<noteq> generatedDBML exShopEnv
           (butlast (plannedCalls (plan_EditorTableDBML exShopEnv exDiagram exImported)))"
    unfolding exPlanShop g by (simp add: g5 g4)
  note main = generated_text_replaces_content_while_typing [OF h imp acc regen new, of 1000,
      unfolded Let_def exPlanShop g g5]
  from main h show ?thesis by (simp add: exTypingSession_def exTyped_def)
qed

section \<open>Properties of the error extraction\<close>

lemma firstDiag_wellformed:
  assumes "map_of kvs ''diags'' = Some (JArr (JObj dk # ds))"
      and "map_of dk ''message'' = Some m"
      and "map_of dk ''location'' = Some (JObj lk)"
      and "map_of lk ''start'' = Some (JObj sk)"
      and "map_of sk ''line'' = Some l"
      and "map_of sk ''column'' = Some c"
  shows "firstDiag (JObj kvs) = Some \<lparr>message = m, line = l, column = c\<rparr>"
  using assms by (simp add: firstDiag_def)

lemma firstDiag_SomeD:
  assumes "firstDiag parsed = Some e"
  shows "\<exists>diags loc start.
           getProp parsed ''diags'' = Some diags \<and> truthy (optIndex0 diags)
         \<and> getProp (optIndex0 diags) ''message'' = Some (message e)
         \<and> getProp (optIndex0 diags) ''location'' = Some loc
         \<and> getProp loc ''start'' = Some start
         \<and> getProp start ''line'' = Some (line e)
         \<and> getProp start ''column'' = Some (column e)"
  using assms
  by (auto simp: firstDiag_def Let_def Option.bind_eq_Some_conv split: option.splits if_splits)

text \<open>
  Claim C9.  For a parser failure that is a structured object, or a string that
  \<^verbatim>\<open>JSON.parse\<close> turns into one, and that carries a \<open>diags\<close> list whose first
  diagnostic has a message and a start location, \<^verbatim>\<open>parseDBMLError\<close> returns that
  message with the start line and column as the diagnostic gives them.  Whatever it
  returns is the first diagnostic's message, start line and start column; in every other
  case (the string does not parse, there is no first diagnostic, the diagnostic has no
  location) it returns \<^verbatim>\<open>null\<close>, which carries no line or column.
\<close>

theorem parseDBMLError_first_diagnostic:
  "((error = JStr str \<and> jsonParse str = Some (JObj kvs) \<or> error = JObj kvs)
     \<and> map_of kvs ''diags'' = Some (JArr (JObj dk # ds))
     \<and> map_of dk ''message'' = Some m
     \<and> map_of dk ''location'' = Some (JObj lk)
     \<and> map_of lk ''start'' = Some (JObj sk)
     \<and> map_of sk ''line'' = Some l
     \<and> map_of sk ''column'' = Some c
     \<longrightarrow> parseDBMLError jsonParse error = Some \<lparr>message = m, line = l, column = c\<rparr>)
   \<and> (\<forall>e. parseDBMLError jsonParse error = Some e \<longrightarrow>
       (\<exists>parsed diags loc start.
           (error = parsed \<or> (\<exists>s. error = JStr s \<and> jsonParse s = Some parsed))
         \<and> getProp parsed ''diags'' = Some diags \<and> truthy (optIndex0 diags)
         \<and> getProp (optIndex0 diags) ''message'' = Some (message e)
         \<and> getProp (optIndex0 diags) ''location'' = Some loc
         \<and> getProp loc ''start'' = Some start
         \<and> getProp start ''line'' = Some (line e)
         \<and> getProp start ''column'' = Some (column e)))
   \<and> (jsonParse str' = None \<longrightarrow> parseDBMLError jsonParse (JStr str') = None)
   \<and> (map_of kvs' ''diags'' = None \<or> map_of kvs' ''diags'' = Some (JArr [])
        \<longrightarrow> parseDBMLError jsonParse (JObj kvs') = None)
   \<and> (map_of kvs' ''diags'' = Some (JArr (JObj dk' # ds')) \<and> map_of dk' ''location'' = None
        \<longrightarrow> parseDBMLError jsonParse (JObj kvs') = None)"
proof (intro conjI impI allI)
  assume a: "(error = JStr str \<and> jsonParse str = Some (JObj kvs) \<or> error = JObj kvs)
     \<and> map_of kvs ''diags'' = Some (JArr (JObj dk # ds))
     \<and> map_of dk ''message'' = Some m
     \<and> map_of dk ''location'' = Some (JObj lk)
     \<and> map_of lk ''start'' = Some (JObj sk)
     \<and> map_of sk ''line'' = Some l
     \<and> map_of sk ''column'' = Some c"
  then have "firstDiag (JObj kvs) = Some \<lparr>message = m, line = l, column = c\<rparr>"
    using firstDiag_wellformed [of kvs dk ds m lk sk l c] by blast
  with a show "parseDBMLError jsonParse error = Some \<lparr>message = m, line = l, column = c\<rparr>"
    by (auto simp: parseDBMLError_def)
next
  fix e
  assume some: "parseDBMLError jsonParse error = Some e"
  then obtain parsed where
    p: "error = parsed \<or> (\<exists>s. error = JStr s \<and> jsonParse s = Some parsed)"
    and f: "firstDiag parsed = Some e"
    by (auto simp: parseDBMLError_def split: jsval.splits option.splits if_splits)
  from firstDiag_SomeD [OF f] p
  show "\<exists>parsed diags loc start.
           (error = parsed \<or> (\<exists>s. error = JStr s \<and> jsonParse s = Some parsed))
         \<and> getProp parsed ''diags'' = Some diags \<and> truthy (optIndex0 diags)
         \<and> getProp (optIndex0 diags) ''message'' = Some (message e)
         \<and> getProp (optIndex0 diags) ''location'' = Some loc
         \<and> getProp loc ''start'' = Some start
         \<and> getProp start ''line'' = Some (line e)
         \<and> getProp start ''column'' = Some (column e)"
    by blast
next
  assume "jsonParse str' = None"
  then show "parseDBMLError jsonParse (JStr str') = None"
    by (simp add: parseDBMLError_def)
next
  assume "map_of kvs' ''diags'' = None \<or> map_of kvs' ''diags'' = Some (JArr [])"
  then show "parseDBMLError jsonParse (JObj kvs') = None"
    by (auto simp: parseDBMLError_def firstDiag_def)
next
  assume "map_of kvs' ''diags'' = Some (JArr (JObj dk' # ds')) \<and> map_of dk' ''location'' = None"
  then show "parseDBMLError jsonParse (JObj kvs') = None"
    by (auto simp: parseDBMLError_def firstDiag_def split: option.splits)
qed

theorem parseDBMLError_first_diagnostic_witness:
  "parseDBMLError exJsonParse (JObj exPayload)
     = Some \<lparr>message = JStr ''Expect a closing brace'', line = JNum 3, column = JNum 7\<rparr>
   \<and> parseDBMLError exJsonParse (JStr ''{diags}'')
     = Some \<lparr>message = JStr ''Expect a closing brace'', line = JNum 3, column = JNum 7\<rparr>
   \<and> parseDBMLError exJsonParse (JStr ''Table Users {'') = None"
proof -
  have shape: "map_of exPayload ''diags'' = Some (JArr (JObj exDiagnostic # []))
     \<and> map_of exDiagnostic ''message'' = Some (JStr ''Expect a closing brace'')
     \<and> map_of exDiagnostic ''location'' = Some (JObj exLocation)
     \<and> map_of exLocation ''start'' = Some (JObj exStart)
     \<and> map_of exStart ''line'' = Some (JNum 3)
     \<and> map_of exStart ''column'' = Some (JNum 7)"
    by (simp add: exPayload_def exDiagnostic_def exLocation_def exStart_def)
  have parses: "exJsonParse ''{diags}'' = Some (JObj exPayload)"
    and throws: "exJsonParse ''Table Users {'' = None"
    by (simp_all add: exJsonParse_def)
  note object = parseDBMLError_first_diagnostic [where error = "JObj exPayload"
      and kvs = exPayload and dk = exDiagnostic and ds = "[]" and lk = exLocation
      and sk = exStart and m = "JStr ''Expect a closing brace''" and l = "JNum 3"
      and c = "JNum 7" and jsonParse = exJsonParse]
  note string = parseDBMLError_first_diagnostic [where error = "JStr ''{diags}''"
      and str = "''{diags}''" and kvs = exPayload and dk = exDiagnostic and ds = "[]"
      and lk = exLocation and sk = exStart and m = "JStr ''Expect a closing brace''"
      and l = "JNum 3" and c = "JNum 7" and jsonParse = exJsonParse
      and str' = "''Table Users {''"]
  from object shape have a: "parseDBMLError exJsonParse (JObj exPayload)
     = Some \<lparr>message = JStr ''Expect a closing brace'', line = JNum 3, column = JNum 7\<rparr>"
    by blast
  from string shape parses have b: "parseDBMLError exJsonParse (JStr ''{diags}'')
     = Some \<lparr>message = JStr ''Expect a closing brace'', line = JNum 3, column = JNum 7\<rparr>"
    by blast
  from string throws have c: "parseDBMLError exJsonParse (JStr ''Table Users {'') = None"
    by blast
  from a b c show ?thesis by simp
qed

section \<open>The round trip\<close>

lemma replaceWhitespace_id: "noWhitespace s \<Longrightarrow> replaceWhitespace s = s"
  by (simp add: noWhitespace_def replaceWhitespace_def map_idI)

lemma wellFormed_resolves:
  assumes "wellFormedDiagram d" "r \<in> set (relationships d)"
  obtains st sf tt tf where "resolveEndpoints (tables d) r = Some (st, sf, tt, tf)"
    "name_f sf \<noteq> []" "name_f tf \<noteq> []"
  using assms by (fastforce simp: wellFormedDiagram_def split: option.splits)

lemma resolveEndpoints_SomeD:
  assumes "resolveEndpoints ts r = Some (st, sf, tt, tf)"
  shows "find (\<lambda>t. id_t t = sourceTableId r) ts = Some st"
    and "find (\<lambda>t. id_t t = targetTableId r) ts = Some tt"
    and "find (\<lambda>f. id_f f = sourceFieldId r) (fields_t st) = Some sf"
    and "find (\<lambda>f. id_f f = targetFieldId r) (fields_t tt) = Some tf"
  using assms by (auto simp: resolveEndpoints_def split: option.splits)

lemma prepared_wellFormed:
  assumes wf: "wellFormedDiagram d"
  shows "filteredDiagramWithoutSpaces (filteredDiagram d (tables d)) = d"
proof -
  have tabs: "map (\<lambda>table. table\<lparr>name_t := replaceWhitespace (name_t table),
                fields_t := map (\<lambda>field. field\<lparr>name_f := replaceWhitespace (name_f field)\<rparr>)
                              (fields_t table),
                indexes_t := map replaceWhitespace (indexes_t table)\<rparr>) (tables d) = tables d"
  proof (rule map_idI)
    fix t assume t: "t \<in> set (tables d)"
    have n: "replaceWhitespace (name_t t) = name_t t"
      using wf t by (simp add: wellFormedDiagram_def replaceWhitespace_id)
    have f: "map (\<lambda>field. field\<lparr>name_f := replaceWhitespace (name_f field)\<rparr>) (fields_t t) = fields_t t"
      using wf t by (intro map_idI) (simp add: wellFormedDiagram_def replaceWhitespace_id)
    have i: "map replaceWhitespace (indexes_t t) = indexes_t t"
      using wf t by (intro map_idI) (simp add: wellFormedDiagram_def replaceWhitespace_id)
    show "t\<lparr>name_t := replaceWhitespace (name_t t),
                fields_t := map (\<lambda>field. field\<lparr>name_f := replaceWhitespace (name_f field)\<rparr>)
                              (fields_t t),
                indexes_t := map replaceWhitespace (indexes_t t)\<rparr> = t"
      by (simp add: n f i)
  qed
  have rels: "filter (\<lambda>rel. find (\<lambda>t. id_t t = sourceTableId rel) (tables d) \<noteq> None \<and>
                       find (\<lambda>t. id_t t = targetTableId rel) (tables d) \<noteq> None)
           (relationships d) = relationships d"
  proof (rule filter_True, intro ballI)
    fix r assume "r \<in> set (relationships d)"
    with wf obtain st sf tt tf where "resolveEndpoints (tables d) r = Some (st, sf, tt, tf)"
      by (rule wellFormed_resolves)
    from resolveEndpoints_SomeD(1,2) [OF this]
    show "find (\<lambda>t. id_t t = sourceTableId r) (tables d) \<noteq> None \<and>
          find (\<lambda>t. id_t t = targetTableId r) (tables d) \<noteq> None" by simp
  qed
  show ?thesis
    unfolding filteredDiagramWithoutSpaces_def filteredDiagram_def rels
    by (simp add: tabs)
qed

lemma find_reimportTable:
  "inj fresh \<Longrightarrow> find (\<lambda>t. id_t t = fresh i) (map (reimportTable fresh layout) ts)
     = map_option (reimportTable fresh layout) (find (\<lambda>t. id_t t = i) ts)"
  by (induction ts) (auto simp: reimportTable_def inj_eq)

lemma find_reimportField:
  "inj fresh \<Longrightarrow> find (\<lambda>f. id_f f = fresh i) (map (reimportField fresh) fs)
     = map_option (reimportField fresh) (find (\<lambda>f. id_f f = i) fs)"
  by (induction fs) (auto simp: reimportField_def inj_eq)

lemma resolveEndpoints_reimport:
  assumes "inj fresh" "resolveEndpoints ts r = Some (st, sf, tt, tf)"
  shows "resolveEndpoints (map (reimportTable fresh layout) ts) (reimportRelationship fresh r)
     = Some (reimportTable fresh layout st, reimportField fresh sf,
             reimportTable fresh layout tt, reimportField fresh tf)"
proof -
  note f = resolveEndpoints_SomeD [OF assms(2)]
  have fs: "fields_t (reimportTable fresh layout t) = map (reimportField fresh) (fields_t t)" for t
    by (simp add: reimportTable_def)
  show ?thesis
    by (simp add: resolveEndpoints_def reimportRelationship_def find_reimportTable [OF assms(1)]
        find_reimportField [OF assms(1)] f fs)
qed

lemma reimport_names:
  "tableKey (reimportTable fresh layout t) = tableKey t"
  "name_t (reimportTable fresh layout t) = name_t t"
  "name_f (reimportField fresh f) = name_f f"
  by (simp_all add: tableKey_def reimportTable_def reimportField_def)

lemma preserve_reimported_field:
  assumes "distinct (map name_f (fields_t t))" "f \<in> set (fields_t t)"
  shows "preserveFieldId t (reimportField fresh f) = f"
  using find_keyed_distinct [OF assms]
  by (simp add: preserveFieldId_def reimport_names) (simp add: reimportField_def)

lemma preserve_reimported_table:
  assumes "distinct (map name_f (fields_t t))"
  shows "tableWithPreservedIds t (reimportTable fresh layout t) = t"
proof -
  have "map (preserveFieldId t) (map (reimportField fresh) (fields_t t)) = fields_t t"
    using assms by (simp add: map_idI preserve_reimported_field)
  then show ?thesis
    by (simp add: tableWithPreservedIds_def reimportTable_def)
qed

lemma reconcile_roundTrip:
  assumes keys: "distinct (map tableKey ts)"
      and fields: "\<forall>t\<in>set ts. distinct (map name_f (fields_t t))"
  shows "tablesToUpdate (reconcileLoop ts (map (reimportTable fresh layout) ts)) = ts"
    and "tablesToAdd (reconcileLoop ts (map (reimportTable fresh layout) ts)) = []"
    and "tablesToRemove (reconcileLoop ts (map (reimportTable fresh layout) ts)) = []"
proof -
  let ?imp = "map (reimportTable fresh layout) ts"
  have mk: "map tableKey ?imp = map tableKey ts" by (simp add: reimport_names comp_def)
  have ikeys: "distinct (map tableKey ?imp)" using keys by (simp only: mk)
  have img: "tableKey ` set ?imp = tableKey ` set ts"
    using arg_cong [OF mk, of set] by (simp only: set_map)
  note r = reconcileLoop_distinct [OF keys ikeys]
  have all: "filter (\<lambda>it. tableKey it \<in> tableKey ` set ts) ?imp = ?imp"
    by (rule filter_True) (auto simp: reimport_names)
  have "map (\<lambda>it. tableWithPreservedIds (the (find (\<lambda>ct. tableKey ct = tableKey it) ts)) it) ?imp
      = map (\<lambda>t. t) ts"
    unfolding map_map comp_def
  proof (rule map_cong [OF refl])
    fix t assume t: "t \<in> set ts"
    have "find (\<lambda>ct. tableKey ct = tableKey t) ts = Some t" by (rule find_keyed_distinct [OF keys t])
    then show "tableWithPreservedIds
        (the (find (\<lambda>ct. tableKey ct = tableKey (reimportTable fresh layout t)) ts))
        (reimportTable fresh layout t) = t"
      using fields t by (simp add: reimport_names preserve_reimported_table)
  qed
  then show "tablesToUpdate (reconcileLoop ts ?imp) = ts" by (simp add: r(1) all)
  have "filter (\<lambda>it. tableKey it \<notin> tableKey ` set ts) ?imp = []"
    by (simp add: filter_empty_conv reimport_names)
  then show "tablesToAdd (reconcileLoop ts ?imp) = []" by (simp only: r(2))
  have "filter (\<lambda>ct. tableKey ct \<notin> tableKey ` set ?imp) ts = []"
    unfolding img by (simp add: filter_empty_conv)
  then show "tablesToRemove (reconcileLoop ts ?imp) = []" by (simp only: r(3))
qed

lemma updatedDiagramTables_same:
  assumes "distinct (map id_t ts)"
  shows "updatedDiagramTables ts [] ts [] = ts"
proof -
  have "map (\<lambda>table. case find (\<lambda>t. id_t t = id_t table) ts of Some t \<Rightarrow> t | None \<Rightarrow> table) ts = ts"
    by (rule map_idI) (simp add: find_keyed_distinct [OF assms])
  then show ?thesis by (simp add: updatedDiagramTables_def)
qed

lemma endpointFieldGone_unchanged:
  assumes res: "resolveEndpoints (tables d) r = Some (st, sf, tt, tf)"
      and names: "name_f sf \<noteq> []" "name_f tf \<noteq> []"
  shows "\<not> endpointFieldGone d (tables d) r"
proof -
  note f = resolveEndpoints_SomeD [OF res]
  have sfin: "sf \<in> set (fields_t st)" and tfin: "tf \<in> set (fields_t tt)"
    using find_SomeD [OF f(3)] find_SomeD [OF f(4)] by simp_all
  have sname: "fieldNameOf (tables d) (sourceTableId r) (sourceFieldId r) = Some (name_f sf)"
   and tname: "fieldNameOf (tables d) (targetTableId r) (targetFieldId r) = Some (name_f tf)"
    by (simp_all add: fieldNameOf_def f)
  have s: "\<not> fieldMissingIn (Some st) (Some (name_f sf))"
   and t: "\<not> fieldMissingIn (Some tt) (Some (name_f tf))"
    using sfin tfin by (auto simp: fieldMissingIn_def list_ex_iff)
  show ?thesis
    by (simp add: endpointFieldGone_def f sname tname falsyName_def names s t)
qed

lemma no_removal_TableDBML:
  assumes wf: "wellFormedDiagram d"
  shows "relationshipsToRemove_TableDBML d [] (tables d) = []"
proof -
  have "\<not> endpointFieldGone d (tables d) r" if "r \<in> set (relationships d)" for r
  proof -
    from wf that obtain st sf tt tf where
      "resolveEndpoints (tables d) r = Some (st, sf, tt, tf)" "name_f sf \<noteq> []" "name_f tf \<noteq> []"
      by (rule wellFormed_resolves)
    then show ?thesis by (rule endpointFieldGone_unchanged)
  qed
  then show ?thesis
    by (simp add: relationshipsToRemove_TableDBML_def isConnectedToRemovedTable_def filter_empty_conv)
qed

lemma resolveCurrent_reimported:
  assumes wf: "wellFormedDiagram d"
      and res: "resolveEndpoints (tables d) r = Some (st, sf, tt, tf)"
  shows "resolveCurrent (tables d)
           (reimportTable fresh layout st, reimportField fresh sf,
            reimportTable fresh layout tt, reimportField fresh tf)
         = None \<or>
         resolveCurrent (tables d)
           (reimportTable fresh layout st, reimportField fresh sf,
            reimportTable fresh layout tt, reimportField fresh tf)
         = Some (st, sf, tt, tf)"
proof -
  note f = resolveEndpoints_SomeD [OF res]
  have names: "distinct (map name_t (tables d))" and ids: "distinct (map id_t (tables d))"
    using wf by (simp_all add: wellFormedDiagram_def)
  have stin: "st \<in> set (tables d)" and ttin: "tt \<in> set (tables d)"
    using find_SomeD [OF f(1)] find_SomeD [OF f(2)] by simp_all
  have sfin: "sf \<in> set (fields_t st)" and tfin: "tf \<in> set (fields_t tt)"
    using find_SomeD [OF f(3)] find_SomeD [OF f(4)] by simp_all
  have fd: "distinct (map name_f (fields_t st))" "distinct (map name_f (fields_t tt))"
    using wf stin ttin by (simp_all add: wellFormedDiagram_def)
  have last: "find (\<lambda>t. name_t t = name_t x) (rev (tables d)) = Some x" if "x \<in> set (tables d)" for x
    using find_keyed_distinct [of name_t "rev (tables d)" x] names that by (simp add: rev_map [symmetric])
  have ms: "map_get (tableNameToCurrentId (tables d)) (name_t st) = Some (id_t st)"
   and mt: "map_get (tableNameToCurrentId (tables d)) (name_t tt) = Some (id_t tt)"
    by (simp_all add: tableNameToCurrentId_last last stin ttin)
  have fs: "find (\<lambda>t. id_t t = id_t st) (tables d) = Some st"
   and ft: "find (\<lambda>t. id_t t = id_t tt) (tables d) = Some tt"
    by (rule find_keyed_distinct [OF ids stin], rule find_keyed_distinct [OF ids ttin])
  have ffs: "find (\<lambda>f. name_f f = name_f sf) (fields_t st) = Some sf"
   and fft: "find (\<lambda>f. name_f f = name_f tf) (fields_t tt) = Some tf"
    by (rule find_keyed_distinct [OF fd(1) sfin], rule find_keyed_distinct [OF fd(2) tfin])
  show ?thesis
    by (simp add: resolveCurrent_def reimport_names ms mt truthyId_def fs ft ffs fft)
qed

lemma sameEndpoints_self:
  assumes "resolveEndpoints ts r = Some (st, sf, tt, tf)"
  shows "sameEndpoints (st, sf, tt, tf) r"
  using find_SomeD [OF resolveEndpoints_SomeD(1) [OF assms]]
        find_SomeD [OF resolveEndpoints_SomeD(2) [OF assms]]
        find_SomeD [OF resolveEndpoints_SomeD(3) [OF assms]]
        find_SomeD [OF resolveEndpoints_SomeD(4) [OF assms]]
  by (simp add: sameEndpoints_def)

lemma mapRelationship_reimported:
  assumes wf: "wellFormedDiagram d" and inj: "inj fresh" and r: "r \<in> set (relationships d)"
  shows "mapRelationship d (reimport fresh layout d) (tables d) newId now
           (reimportRelationship fresh r) = None"
proof -
  from wf r obtain st sf tt tf where res: "resolveEndpoints (tables d) r = Some (st, sf, tt, tf)"
    by (rule wellFormed_resolves)
  have imp: "resolveEndpoints (tables (reimport fresh layout d)) (reimportRelationship fresh r)
     = Some (reimportTable fresh layout st, reimportField fresh sf,
             reimportTable fresh layout tt, reimportField fresh tf)"
    using resolveEndpoints_reimport [OF inj res] by (simp add: reimport_def)
  have ex: "list_ex (sameEndpoints (st, sf, tt, tf)) (relationships d)"
    using sameEndpoints_self [OF res] r by (auto simp: list_ex_iff)
  from resolveCurrent_reimported [OF wf res, of fresh layout] show ?thesis
    by (auto simp: mapRelationship_def imp ex)
qed

lemma mapRelationships_empty:
  assumes "\<And>rel newId now. rel \<in> set rels \<Longrightarrow> mapRelationship cur imp ts newId now rel = None"
  shows "mapRelationships env cur imp ts n rels = []"
  using assms by (induction rels arbitrary: n) simp_all

lemma no_addition_roundTrip:
  assumes wf: "wellFormedDiagram d" and inj: "inj fresh"
  shows "relationshipsToAdd env d (reimport fresh layout d) (tables d) = []"
  unfolding relationshipsToAdd_def
proof (rule mapRelationships_empty)
  fix rel newId now
  assume "rel \<in> set (relationships (reimport fresh layout d))"
  then obtain r where "r \<in> set (relationships d)" "rel = reimportRelationship fresh r"
    by (auto simp: reimport_def)
  then show "mapRelationship d (reimport fresh layout d) (tables d) newId now rel = None"
    using mapRelationship_reimported [OF wf inj] by simp
qed

lemma relKey_reimported:
  "relKey (reimportTable fresh layout st, reimportField fresh sf,
           reimportTable fresh layout tt, reimportField fresh tf) = relKey (st, sf, tt, tf)"
  by (simp add: relKey_def reimport_names)

lemma no_removal_EditorTableDBML:
  assumes wf: "wellFormedDiagram d" and inj: "inj fresh"
  shows "relationshipsToRemove_EditorTableDBML d (reimport fresh layout d) [] (tables d) = []"
proof -
  have "\<not> missingFromImport d (importedRelationshipMap (reimport fresh layout d)) r
        \<and> \<not> endpointFieldGone d (tables d) r"
    if r: "r \<in> set (relationships d)" for r
  proof -
    from wf r obtain st sf tt tf where
      res: "resolveEndpoints (tables d) r = Some (st, sf, tt, tf)"
      and n: "name_f sf \<noteq> []" "name_f tf \<noteq> []"
      by (rule wellFormed_resolves)
    have imp: "resolveEndpoints (tables (reimport fresh layout d)) (reimportRelationship fresh r)
       = Some (reimportTable fresh layout st, reimportField fresh sf,
               reimportTable fresh layout tt, reimportField fresh tf)"
      using resolveEndpoints_reimport [OF inj res] by (simp add: reimport_def)
    have mem: "reimportRelationship fresh r \<in> set (relationships (reimport fresh layout d))"
      using r by (simp add: reimport_def)
    have "map_has (importedRelationshipMap (reimport fresh layout d)) (relKey (st, sf, tt, tf))"
      unfolding map_has_importedRelationshipMap
      using mem imp relKey_reimported [of fresh layout st sf tt tf] by metis
    then have "\<not> missingFromImport d (importedRelationshipMap (reimport fresh layout d)) r"
      by (simp add: missingFromImport_def res)
    with endpointFieldGone_unchanged [OF res n] show ?thesis by simp
  qed
  then show ?thesis
    by (simp add: relationshipsToRemove_EditorTableDBML_def isConnectedToRemovedTable_def
        filter_empty_conv)
qed

lemma plan_roundTrip:
  assumes wf: "wellFormedDiagram d" and inj: "inj fresh"
  shows "plan_TableDBML env d (reimport fresh layout d) =
           \<lparr>planRemoveTables = [], planRemoveRelationships = [], planUpdateTables = tables d,
            planAddTables = [], planUpdatedTables = tables d, planAddRelationships = []\<rparr>"
    and "plan_EditorTableDBML env d (reimport fresh layout d) =
           \<lparr>planRemoveTables = [], planRemoveRelationships = [], planUpdateTables = tables d,
            planAddTables = [], planUpdatedTables = tables d, planAddRelationships = []\<rparr>"
proof -
  have keys: "distinct (map tableKey (tables d))"
    and ids: "distinct (map id_t (tables d))"
    and fields: "\<forall>t\<in>set (tables d). distinct (map name_f (fields_t t))"
    using wf by (simp_all add: wellFormedDiagram_def)
  have t: "tables (reimport fresh layout d) = map (reimportTable fresh layout) (tables d)"
    by (simp add: reimport_def)
  note rec = reconcile_roundTrip [OF keys fields, of fresh layout]
  note upd = updatedDiagramTables_same [OF ids]
  show "plan_TableDBML env d (reimport fresh layout d) =
           \<lparr>planRemoveTables = [], planRemoveRelationships = [], planUpdateTables = tables d,
            planAddTables = [], planUpdatedTables = tables d, planAddRelationships = []\<rparr>"
    unfolding plan_TableDBML_def Let_def t rec upd
    by (simp add: no_removal_TableDBML [OF wf] no_addition_roundTrip [OF wf inj])
  show "plan_EditorTableDBML env d (reimport fresh layout d) =
           \<lparr>planRemoveTables = [], planRemoveRelationships = [], planUpdateTables = tables d,
            planAddTables = [], planUpdatedTables = tables d, planAddRelationships = []\<rparr>"
    unfolding plan_EditorTableDBML_def Let_def t rec upd
    by (simp add: no_removal_EditorTableDBML [OF wf inj] no_addition_roundTrip [OF wf inj])
qed

lemma exDiagram_wellFormed: "wellFormedDiagram exDiagram"
proof -
  have res: "resolveEndpoints [exUsers, exOrders] exRelOrdersUsers
       = Some (exOrders, \<lparr>id_f = ''f4'', name_f = ''user_id'', type_f = ''int''\<rparr>,
               exUsers, \<lparr>id_f = ''f1'', name_f = ''id'', type_f = ''int''\<rparr>)"
    by (simp add: resolveEndpoints_def exRelOrdersUsers_def ex_defs)
  show ?thesis
    unfolding wellFormedDiagram_def exDiagram_def
    by (simp add: res) (simp add: ex_defs tableKey_def schemaOrEmpty_def noWhitespace_def isWhitespace_def)
qed

lemma exFresh_inj: "inj exFresh"
  by (simp add: inj_def exFresh_def)

text \<open>
  Claim C2, amended.  Take a diagram in which table keys, table names and table ids are
  pairwise different, field names are pairwise different within each table, no table,
  field or index name contains a whitespace character, and every relationship's endpoint
  tables and fields are found in the diagram, the two endpoint fields having non-empty
  names (\<open>wellFormedDiagram\<close>); let no table filter be set, so that the
  \<^verbatim>\<open>filteredTables\<close> are all the tables of the diagram; and let the importer give
  different fresh ids to different ids.  Then the generated text imported again with no
  edit reconciles to: nothing to add, nothing to remove, and every table of the diagram
  to update, each entry equal to the table it replaces; no relationship is removed or
  added.  The explicit-apply session therefore issues one store call, the update of the
  tables with themselves (none for an empty diagram), and regenerates the text from the
  same diagram.  The auto-apply session would plan the same, but it does not get that far:
  text equal to the baseline is not applied at all.
\<close>

theorem round_trip_updates_every_table_unchanged:
  assumes wf: "wellFormedDiagram currentDiagram"
      and nofilter: "filteredTables = tables currentDiagram"
      and fresh: "inj fresh"
  shows "let imp = roundTrip fresh layout currentDiagram filteredTables;
             st = reconcileLoop (tables currentDiagram) (tables imp);
             p = plan_TableDBML env currentDiagram imp
         in tablesToAdd st = [] \<and> tablesToRemove st = []
          \<and> tablesToUpdate st = tables currentDiagram
          \<and> planRemoveRelationships p = [] \<and> planAddRelationships p = []
          \<and> plannedCalls p = (if tables currentDiagram = [] then []
                               else [UpdateTablesState (tables currentDiagram)])
          \<and> regeneratedDiagram currentDiagram p = currentDiagram
          \<and> plan_EditorTableDBML env currentDiagram imp = p
          \<and> storeCalls (applyDBMLChanges_EditorTableDBML env currentDiagram nowStart nowEnd
                (originalDbmlContent s) s) = []"
proof -
  have rt: "roundTrip fresh layout currentDiagram filteredTables
            = reimport fresh layout currentDiagram"
    by (simp add: roundTrip_def nofilter prepared_wellFormed [OF wf])
  have keys: "distinct (map tableKey (tables currentDiagram))"
    and fields: "\<forall>t\<in>set (tables currentDiagram). distinct (map name_f (fields_t t))"
    using wf by (simp_all add: wellFormedDiagram_def)
  have t: "tables (reimport fresh layout currentDiagram)
           = map (reimportTable fresh layout) (tables currentDiagram)"
    by (simp add: reimport_def)
  note rec = reconcile_roundTrip [OF keys fields, of fresh layout]
  note p = plan_roundTrip [OF wf fresh, of env layout]
  have early: "storeCalls (applyDBMLChanges_EditorTableDBML env currentDiagram nowStart nowEnd
                (originalDbmlContent s) s) = []"
    by (simp add: applyDBMLChanges_EditorTableDBML_def)
  show ?thesis
    unfolding Let_def rt p t rec
    by (simp add: plannedCalls_def regeneratedDiagram_def early)
qed

theorem round_trip_updates_every_table_unchanged_witness:
  "wellFormedDiagram exDiagram \<and> [exUsers, exOrders] = tables exDiagram \<and> inj exFresh
   \<and> tablesToUpdate (reconcileLoop (tables exDiagram)
        (tables (roundTrip exFresh exLayout exDiagram [exUsers, exOrders])))
       = [exUsers, exOrders]
   \<and> plannedCalls (plan_TableDBML (exEnv exImported) exDiagram
        (roundTrip exFresh exLayout exDiagram [exUsers, exOrders]))
       = [UpdateTablesState [exUsers, exOrders]]"
proof -
  have nf: "[exUsers, exOrders] = tables exDiagram" by (simp add: exDiagram_def)
  from round_trip_updates_every_table_unchanged [OF exDiagram_wellFormed nf exFresh_inj,
      of exLayout "exEnv exImported"] exDiagram_wellFormed exFresh_inj
  show ?thesis by (simp add: Let_def exDiagram_def)
qed

text \<open>
  Claim C2 as stated fails on the shop's diagram: its two tables are both in the update
  set after a round trip.
\<close>

theorem round_trip_update_set_not_empty:
  "\<not> (tablesToAdd (reconcileLoop (tables exDiagram)
          (tables (roundTrip exFresh exLayout exDiagram (tables exDiagram)))) = []
      \<and> tablesToRemove (reconcileLoop (tables exDiagram)
          (tables (roundTrip exFresh exLayout exDiagram (tables exDiagram)))) = []
      \<and> tablesToUpdate (reconcileLoop (tables exDiagram)
          (tables (roundTrip exFresh exLayout exDiagram (tables exDiagram)))) = [])"
proof -
  have rt: "tables (roundTrip exFresh exLayout exDiagram (tables exDiagram))
     = map (reimportTable exFresh exLayout) (tables exDiagram)"
    by (simp add: roundTrip_def prepared_wellFormed [OF exDiagram_wellFormed] reimport_def)
  have keys: "distinct (map tableKey (tables exDiagram))"
    and fields: "\<forall>t\<in>set (tables exDiagram). distinct (map name_f (fields_t t))"
    using exDiagram_wellFormed by (simp_all add: wellFormedDiagram_def)
  have "tablesToUpdate (reconcileLoop (tables exDiagram)
          (tables (roundTrip exFresh exLayout exDiagram (tables exDiagram)))) = tables exDiagram"
    unfolding rt by (rule reconcile_roundTrip(1) [OF keys fields])
  then show ?thesis by (simp add: exDiagram_def)
qed

text \<open>
  Outside the hypotheses of the amended claim a round trip with no edit does change the
  diagram.  The definitions below are those that evaluating a plan on a given diagram
  unfolds.
\<close>

lemmas plan_defs = plan_TableDBML_def plan_EditorTableDBML_def reconcileLoop_def currentTableMap_def
  processImportedTable_def map_get_def map_has_def map_delete_def map_values_def tableKey_def
  schemaOrEmpty_def tableWithPreservedIds_def preserveFieldId_def tablesToRemove_def
  updatedDiagramTables_def relationshipsToRemove_TableDBML_def
  relationshipsToRemove_EditorTableDBML_def isConnectedToRemovedTable_def endpointFieldGone_def
  fieldNameOf_def falsyName_def fieldMissingIn_def missingFromImport_def
  importedRelationshipMap_def addImportedRelationship_def resolveEndpoints_def relKey_def
  relReverseKey_def relationshipsToAdd_def mapRelationship_def resolveCurrent_def
  tableNameToCurrentId_def truthyId_def sameEndpoints_def plannedCalls_def Let_def

lemmas trip_defs = roundTrip_def reimport_def reimportTable_def reimportField_def
  reimportRelationship_def filteredDiagram_def filteredDiagramWithoutSpaces_def
  replaceWhitespace_def isWhitespace_def exFresh_def exLayout_def

text \<open>
  With a table filter set: the panel shows only \<open>Users\<close> of the shop, the generated text
  has no \<open>Orders\<close>, and the reconciliation, which runs against all tables of the diagram,
  removes \<open>Orders\<close> and its relationship.
\<close>

lemma round_trip_with_filter_removes_hidden_table:
  "tablesToRemove (reconcileLoop (tables exDiagram)
      (tables (roundTrip exFresh exLayout exDiagram [exUsers]))) = [exOrders]
   \<and> plannedCalls (plan_TableDBML env exDiagram (roundTrip exFresh exLayout exDiagram [exUsers]))
       = [RemoveTables [''t2''], RemoveRelationships [''r1''], UpdateTablesState [exUsers]]
   \<and> plannedCalls (plan_EditorTableDBML env exDiagram (roundTrip exFresh exLayout exDiagram [exUsers]))
       = [RemoveTables [''t2''], RemoveRelationships [''r1''], UpdateTablesState [exUsers]]"
  by (simp add: plan_defs trip_defs exDiagram_def exUsers_def exOrders_def exRelOrdersUsers_def)

text \<open>
  With whitespace in a name: the table \<open>App Users\<close> is exported as \<open>App_Users\<close>, which
  matches no current table; the table is removed and a table with the new name and fresh
  ids is added.
\<close>

lemma round_trip_renames_table_with_whitespace:
  "tablesToAdd (reconcileLoop (tables exAppDiagram)
      (tables (roundTrip exFresh exLayout exAppDiagram (tables exAppDiagram))))
     = [exAppUsers\<lparr>id_t := ''na1'', name_t := ''App_Users'',
          fields_t := [\<lparr>id_f = ''na2'', name_f = ''id'', type_f = ''int''\<rparr>]\<rparr>]
   \<and> tablesToRemove (reconcileLoop (tables exAppDiagram)
      (tables (roundTrip exFresh exLayout exAppDiagram (tables exAppDiagram)))) = [exAppUsers]
   \<and> plannedCalls (plan_TableDBML env exAppDiagram
        (roundTrip exFresh exLayout exAppDiagram (tables exAppDiagram)))
       = [RemoveTables [''a1''],
          AddTables [exAppUsers\<lparr>id_t := ''na1'', name_t := ''App_Users'',
            fields_t := [\<lparr>id_f = ''na2'', name_f = ''id'', type_f = ''int''\<rparr>]\<rparr>]]"
  by (simp add: plan_defs trip_defs exAppDiagram_def exAppUsers_def)

text \<open>
  With two tables of one name: the relationship of \<open>sales.Items\<close> to itself comes back
  as a relationship of \<open>Items\<close>, the name resolves to \<open>stock.Items\<close>, no existing
  relationship connects those fields, and a relationship on \<open>stock.Items\<close> is added.
\<close>

lemma round_trip_same_name_adds_relationship:
  "planAddRelationships (plan_TableDBML (exEnv exImported) exItemsDiagram
      (roundTrip exFresh exLayout exItemsDiagram (tables exItemsDiagram)))
     = [\<lparr>id_r = ''r'', name_r = ''Items_id_Items_id'',
         sourceSchema = Some ''stock'', targetSchema = Some ''stock'',
         sourceTableId = ''s2'', targetTableId = ''s2'',
         sourceFieldId = ''g2'', targetFieldId = ''g2'',
         sourceCardinality = One, targetCardinality = One, createdAt = 1000\<rparr>]
   \<and> planRemoveRelationships (plan_TableDBML (exEnv exImported) exItemsDiagram
      (roundTrip exFresh exLayout exItemsDiagram (tables exItemsDiagram))) = []"
  by (simp add: plan_defs trip_defs exItemsDiagram_def exSalesItems_def exStockItems_def
      exRelItemsSelf_def exEnv_def)

text \<open>
  With an endpoint field of the empty name: the relationship of \<open>Tags\<close> to \<open>Users\<close>
  counts as one whose field is gone and is removed, and it is not added again.
\<close>

lemma round_trip_empty_field_name_removes_relationship:
  "planRemoveRelationships (plan_TableDBML env exTagsDiagram
      (roundTrip exFresh exLayout exTagsDiagram (tables exTagsDiagram))) = [exRelTagsUsers]
   \<and> planAddRelationships (plan_TableDBML env exTagsDiagram
      (roundTrip exFresh exLayout exTagsDiagram (tables exTagsDiagram))) = []"
  by (simp add: plan_defs trip_defs exTagsDiagram_def exUsers_def exTags_def exRelTagsUsers_def)

end
